theory Spec2Isabelle
  imports Complex_Main "HOL-Library.AList" "HOL-Library.Char_ord" "HOL-Library.List_Lexorder"
    "HOL-Library.Product_Lexorder"
begin

section \<open>JavaScript values used by the weather front end\<close>

text \<open>
  Two modules are verified here: \<^verbatim>\<open>script.js\<close> (function \<^verbatim>\<open>getClimate\<close>) and the
  module it imports as \<^verbatim>\<open>./options.js\<close> (functions \<^verbatim>\<open>getForecast10Days\<close> and
  \<^verbatim>\<open>getHourly24\<close>).

  JavaScript numbers are IEEE-754 doubles. A finite number is modelled by the
  rational it denotes (\<^typ>\<open>rat\<close>), an integer received from JSON by \<^typ>\<open>int\<close>. The
  operations that round, \<^verbatim>\<open>-\<close> and \<^verbatim>\<open>/\<close> in \<^verbatim>\<open>getClimate\<close>, round their exact
  result to the nearest double, ties to even (\<open>round_double\<close>); the other
  operations used (\<^verbatim>\<open>Math.floor\<close>, \<^verbatim>\<open>Math.abs\<close>, \<^verbatim>\<open>Math.min\<close>, \<^verbatim>\<open>Math.max\<close>,
  \<^verbatim>\<open>Math.round\<close>, comparisons) are exact on doubles. The non-finite results the code
  can produce are written out explicitly. A thrown exception is a value of
  \<open>js_error\<close>, and a function that can throw returns \<open>js_error + 'a\<close>.
\<close>

datatype js_error =
    Error string
  | TypeError string
  | RangeError string
  | SyntaxError string

text \<open>What a cell read or the variable \<^verbatim>\<open>climateCode\<close> can hold.\<close>

datatype jsval = Undefined | Null | Number int

text \<open>Decimal rendering of an integer, as a template literal renders it.\<close>

definition digit_char :: "nat \<Rightarrow> char" where
  "digit_char d = ''0123456789'' ! d"

function show_nat :: "nat \<Rightarrow> string" where
  "show_nat n = (if n < 10 then [digit_char n] else show_nat (n div 10) @ [digit_char (n mod 10)])"
  by pat_completeness auto
termination
  by (relation "measure (\<lambda>n. n)") auto

definition show_int :: "int \<Rightarrow> string" where
  "show_int i = (if i < 0 then CHR ''-'' # show_nat (nat (- i)) else show_nat (nat i))"

definition show_jsval :: "jsval \<Rightarrow> string" where
  "show_jsval v = (case v of Undefined \<Rightarrow> ''undefined'' | Null \<Rightarrow> ''null'' | Number i \<Rightarrow> show_int i)"

section \<open>script.js: the climate classifier\<close>

text \<open>
  A georaster as \<^verbatim>\<open>parseGeoraster\<close> delivers it: the west edge \<open>xmin\<close>, the north
  edge \<open>ymax\<close>, the cell sizes, the column and row counts, and \<open>values\<close> indexed
  \<^verbatim>\<open>[band][row][column]\<close>.
\<close>

record georaster =
  xmin :: rat
  ymax :: rat
  pixelWidth :: rat
  pixelHeight :: rat
  width :: int
  height :: int
  "values" :: "int list list list"

record climate =
  climateCode :: jsval
  climateType :: string

text \<open>The table \<^verbatim>\<open>koppenClasses\<close>; each entry is the \<^verbatim>\<open>name\<close> of the class.\<close>

definition koppenClasses :: "(int \<times> string) list" where
  "koppenClasses =
    [(0, ''No data''), (1, ''Tropical (A)''), (2, ''Arid (B)''),
     (3, ''Temperate (C)''), (4, ''Cold (D)''), (5, ''Polar (E)'')]"

text \<open>
  Rounding to the nearest double. For \<open>x \<noteq> 0\<close> the exponent \<open>e\<close> of the last
  place is \<open>floor (log2 |x|) - 52\<close>, and at least \<open>- 1074\<close> (subnormal numbers);
  \<open>|x| / 2 ^ e\<close> is rounded to an integer, ties to even. A result of magnitude
  \<open>2 ^ 1024\<close> or more (its \<open>ilog2\<close> is at least 1024) is \<^verbatim>\<open>Infinity\<close> or \<^verbatim>\<open>-Infinity\<close>: \<open>None\<close>.
\<close>

function bit_length :: "int \<Rightarrow> int" where
  "bit_length n = (if n \<le> 0 then 0 else 1 + bit_length (n div 2))"
  by pat_completeness auto
termination
  by (relation "measure nat") auto

definition pow2 :: "int \<Rightarrow> rat" where
  "pow2 e = (if 0 \<le> e then 2 ^ nat e else 1 / 2 ^ nat (- e))"

text \<open>\<open>floor (log2 x)\<close> for a positive \<open>x\<close>, from the bit lengths of numerator and denominator.\<close>

definition ilog2 :: "rat \<Rightarrow> int" where
  "ilog2 x =
    (case quotient_of x of
       (p, q) \<Rightarrow> (let k = bit_length p - bit_length q in if pow2 k \<le> x then k else k - 1))"

definition round_half_even :: "rat \<Rightarrow> int" where
  "round_half_even q =
    (let f = \<lfloor>q\<rfloor>; d = q - of_int f
     in if d < 1 / 2 then f else if 1 / 2 < d then f + 1 else if even f then f else f + 1)"

definition round_double :: "rat \<Rightarrow> rat option" where
  "round_double x =
    (if x = 0 then Some 0
     else
       (let a = \<bar>x\<bar>;
            e = max (ilog2 a - 52) (- 1074);
            r = of_int (round_half_even (a / pow2 e)) * pow2 e
        in if 1024 \<le> ilog2 r then None else Some (if x < 0 then - r else r)))"

text \<open>
  \<^verbatim>\<open>Math.floor((a - b) / w)\<close> on doubles \<open>a\<close>, \<open>b\<close> and \<open>w\<close>. \<open>None\<close> is a
  non-finite result: the difference overflows, or \<open>w = 0\<close> and the quotient is
  \<^verbatim>\<open>Infinity\<close>, \<^verbatim>\<open>-Infinity\<close> or \<^verbatim>\<open>NaN\<close>, or the quotient overflows; \<^verbatim>\<open>Math.floor\<close>
  returns a non-finite argument unchanged.
\<close>

definition pixel_index :: "rat \<Rightarrow> rat \<Rightarrow> rat \<Rightarrow> int option" where
  "pixel_index a b w =
    (case round_double (a - b) of
       None \<Rightarrow> None
     | Some d \<Rightarrow>
        if w = 0 then None
        else (case round_double (d / w) of None \<Rightarrow> None | Some q \<Rightarrow> Some \<lfloor>q\<rfloor>))"

text \<open>
  \<^verbatim>\<open>xPixel = Math.floor((lon - xmin) / pixelWidth)\<close> and
  \<^verbatim>\<open>yPixel = Math.floor((ymax - lat) / Math.abs(pixelHeight))\<close>.
\<close>

definition xPixel :: "rat \<Rightarrow> georaster \<Rightarrow> int option" where
  "xPixel lon g = pixel_index lon (xmin g) (pixelWidth g)"

definition yPixel :: "rat \<Rightarrow> georaster \<Rightarrow> int option" where
  "yPixel lat g = pixel_index (ymax g) lat \<bar>pixelHeight g\<bar>"

text \<open>
  The guard \<^verbatim>\<open>yPixel >= 0 && yPixel < height && xPixel >= 0 && xPixel < width\<close>.
  Every comparison with \<^verbatim>\<open>NaN\<close> is false, \<^verbatim>\<open>-Infinity >= 0\<close> is false and
  \<^verbatim>\<open>Infinity < n\<close> is false, so a non-finite index never passes.
\<close>

definition in_bounds :: "georaster \<Rightarrow> int option \<Rightarrow> int option \<Rightarrow> bool" where
  "in_bounds g y x =
    (case (y, x) of
       (Some r, Some c) \<Rightarrow> r \<ge> 0 \<and> r < height g \<and> c \<ge> 0 \<and> c < width g
     | _ \<Rightarrow> False)"

text \<open>
  The read \<^verbatim>\<open>georaster.values[0][yPixel][xPixel]\<close> for non-negative indices.
  Indexing an array past its end gives \<^verbatim>\<open>undefined\<close>, and indexing
  \<^verbatim>\<open>undefined\<close> throws a TypeError.
\<close>

definition index :: "'a list \<Rightarrow> int \<Rightarrow> 'a option" where
  "index xs i = (if 0 \<le> i \<and> i < int (length xs) then Some (xs ! nat i) else None)"

definition read_cell :: "georaster \<Rightarrow> int \<Rightarrow> int \<Rightarrow> js_error + jsval" where
  "read_cell g r c =
    (case index (values g) 0 of
       None \<Rightarrow> Inl (TypeError ''Cannot read properties of undefined'')
     | Some band \<Rightarrow>
        (case index band r of
           None \<Rightarrow> Inl (TypeError ''Cannot read properties of undefined'')
         | Some row \<Rightarrow>
            (case index row c of
               None \<Rightarrow> Inr Undefined
             | Some v \<Rightarrow> Inr (Number v))))"

text \<open>
  \<^verbatim>\<open>val in koppenClasses ? koppenClasses[val].name : `Code ${val}`\<close>.
  The key \<^verbatim>\<open>"undefined"\<close> is not in the table.
\<close>

definition class_name :: "jsval \<Rightarrow> string" where
  "class_name val =
    (case val of
       Number i \<Rightarrow> (case map_of koppenClasses i of
                      Some n \<Rightarrow> n
                    | None \<Rightarrow> ''Code '' @ show_int i)
     | _ \<Rightarrow> ''Code '' @ show_jsval val)"

definition unknown_climate :: climate where
  "unknown_climate = \<lparr>climateCode = Null, climateType = ''Unknown''\<rparr>"

text \<open>The body of the \<^verbatim>\<open>try\<close> block of \<^verbatim>\<open>getClimate\<close>; \<open>None\<close> is a falsy georaster.\<close>

definition getClimate_try :: "rat \<Rightarrow> rat \<Rightarrow> georaster option \<Rightarrow> js_error + climate" where
  "getClimate_try lat lon georaster =
    (case georaster of
       None \<Rightarrow> Inr unknown_climate
     | Some g \<Rightarrow>
        (let x = xPixel lon g; y = yPixel lat g in
         if in_bounds g y x then
           (case read_cell g (the y) (the x) of
              Inl err \<Rightarrow> Inl err
            | Inr val \<Rightarrow> Inr \<lparr>climateCode = val, climateType = class_name val\<rparr>)
         else Inr unknown_climate))"

text \<open>
  \<^verbatim>\<open>getClimate\<close>: the \<^verbatim>\<open>catch\<close> block logs the error and falls through to the final
  \<^verbatim>\<open>return { climateCode, climateType }\<close>. The only statement of the block that can
  throw is the cell read, which precedes both assignments, so the variables still
  hold their initial values there.
\<close>

definition getClimate :: "rat \<Rightarrow> rat \<Rightarrow> georaster option \<Rightarrow> js_error + climate" where
  "getClimate lat lon georaster =
    (case getClimate_try lat lon georaster of
       Inl err \<Rightarrow> Inr unknown_climate
     | Inr result \<Rightarrow> Inr result)"

text \<open>
  A grid as the raster file provides it: band 0 holds \<open>height\<close> rows of \<open>width\<close>
  codes each.
\<close>

definition rectangular :: "georaster \<Rightarrow> bool" where
  "rectangular g =
    (case values g of
       [] \<Rightarrow> False
     | band # _ \<Rightarrow> int (length band) = height g \<and> list_all (\<lambda>row. int (length row) = width g) band)"

text \<open>
  The doubles written \<^verbatim>\<open>0.1\<close>, \<^verbatim>\<open>10.05\<close> and \<^verbatim>\<open>20.05\<close>.
\<close>

definition double_0_1 :: rat where
  "double_0_1 = 3602879701896397 / 36028797018963968"

definition double_10_05 :: rat where
  "double_10_05 = 2828823515942093 / 281474976710656"

definition double_20_05 :: rat where
  "double_20_05 = 5643573283048653 / 281474976710656"

text \<open>
  The grid of the specification's scenario: origin (lat 90, lon -180), cells of
  0.1 by 0.1 degrees, 3600 columns and 1800 rows, all cells 0 but cell [799][2000].
\<close>

definition scenario_grid :: georaster where
  "scenario_grid =
    \<lparr>xmin = -180, ymax = 90, pixelWidth = double_0_1, pixelHeight = - double_0_1,
     width = 3600, height = 1800,
     values = [(replicate 1800 (replicate 3600 0))[799 := (replicate 3600 0)[2000 := 7]]]\<rparr>"

text \<open>
  A grid with west edge -0.3 and cells of 0.01 degrees (the double written
  \<^verbatim>\<open>0.01\<close>), 3308 columns and one row, and the longitude written \<^verbatim>\<open>32.78\<close>.
\<close>

definition double_0_01 :: rat where
  "double_0_01 = 5764607523034235 / 576460752303423488"

definition double_0_3 :: rat where
  "double_0_3 = 5404319552844595 / 18014398509481984"

definition double_32_78 :: rat where
  "double_32_78 = 1153343717071913 / 35184372088832"

definition boundary_grid :: georaster where
  "boundary_grid =
    \<lparr>xmin = - double_0_3, ymax = 90, pixelWidth = double_0_01, pixelHeight = - 1,
     width = 3308, height = 1, values = [[replicate 3308 4]]\<rparr>"

section \<open>options.js: numbers, dates and counting objects\<close>

text \<open>
  The numbers \<^verbatim>\<open>Math.min(...temps)\<close> and \<^verbatim>\<open>Math.max(...temps)\<close> can produce: a
  finite number, \<^verbatim>\<open>Infinity\<close> or \<^verbatim>\<open>-Infinity\<close> when \<open>temps\<close> is empty, and
  \<^verbatim>\<open>NaN\<close> when an element of \<open>temps\<close> is \<^verbatim>\<open>undefined\<close>.
\<close>

datatype jsnum = Finite rat | Infinity | MinusInfinity | NaN

text \<open>The comparison \<^verbatim>\<open>a <= b\<close> on numbers; it is false when either is \<^verbatim>\<open>NaN\<close>.\<close>

fun js_le :: "jsnum \<Rightarrow> jsnum \<Rightarrow> bool" where
  "js_le NaN _ = False"
| "js_le _ NaN = False"
| "js_le (Finite a) (Finite b) = (a \<le> b)"
| "js_le MinusInfinity _ = True"
| "js_le _ Infinity = True"
| "js_le _ _ = False"

text \<open>
  \<^verbatim>\<open>Math.min\<close> and \<^verbatim>\<open>Math.max\<close> convert each argument to a number (\<^verbatim>\<open>undefined\<close>
  becomes \<^verbatim>\<open>NaN\<close>), return \<^verbatim>\<open>NaN\<close> if any argument is \<^verbatim>\<open>NaN\<close>, and otherwise the
  least or greatest argument, starting from \<^verbatim>\<open>Infinity\<close> or \<^verbatim>\<open>-Infinity\<close>. An
  element of \<open>temps\<close> is a number or \<^verbatim>\<open>undefined\<close> (\<open>None\<close>).
\<close>

definition to_number :: "rat option \<Rightarrow> jsnum" where
  "to_number v = (case v of None \<Rightarrow> NaN | Some t \<Rightarrow> Finite t)"

definition js_min :: "jsnum \<Rightarrow> jsnum \<Rightarrow> jsnum" where
  "js_min a b = (if a = NaN \<or> b = NaN then NaN else if js_le a b then a else b)"

definition js_max :: "jsnum \<Rightarrow> jsnum \<Rightarrow> jsnum" where
  "js_max a b = (if a = NaN \<or> b = NaN then NaN else if js_le a b then b else a)"

definition Math_min :: "rat option list \<Rightarrow> jsnum" where
  "Math_min ts = foldl js_min Infinity (map to_number ts)"

definition Math_max :: "rat option list \<Rightarrow> jsnum" where
  "Math_max ts = foldl js_max MinusInfinity (map to_number ts)"

text \<open>\<^verbatim>\<open>Math.round\<close> rounds to the nearest integer, halves towards plus infinity.\<close>

fun Math_round :: "jsnum \<Rightarrow> jsnum" where
  "Math_round (Finite x) = Finite (of_int \<lfloor>x + 1 / 2\<rfloor>)"
| "Math_round Infinity = Infinity"
| "Math_round MinusInfinity = MinusInfinity"
| "Math_round NaN = NaN"

text \<open>\<^verbatim>\<open>Math.min(10, Math.max(1, count))\<close> and \<^verbatim>\<open>xs.slice(0, n)\<close> for an integer \<open>n\<close>.\<close>

definition clamp_count :: "int \<Rightarrow> int" where
  "clamp_count count = min 10 (max 1 count)"

definition slice0 :: "int \<Rightarrow> 'a list \<Rightarrow> 'a list" where
  "slice0 n xs = take (nat n) xs"

text \<open>
  \<^verbatim>\<open>new Date(ts).toISOString().slice(0, 10)\<close> for a time value \<open>ts\<close> in
  milliseconds. The day number is \<open>ts div 86400000\<close>; its date in the proleptic
  Gregorian calendar is reached from 1970-01-01 by stepping one day at a time.
  \<^verbatim>\<open>toISOString\<close> writes a year from 0 to 9999 with four digits and any other year
  with a sign and six digits, and throws a RangeError for a time value beyond
  8.64e15 in magnitude. The text from \<^verbatim>\<open>T\<close> on lies past the first ten
  characters in either format and is left out.
\<close>

definition is_leap :: "int \<Rightarrow> bool" where
  "is_leap y = (y mod 4 = 0 \<and> (y mod 100 \<noteq> 0 \<or> y mod 400 = 0))"

definition days_in_month :: "int \<Rightarrow> nat \<Rightarrow> nat" where
  "days_in_month y m =
    (if m = 2 then (if is_leap y then 29 else 28)
     else if m = 4 \<or> m = 6 \<or> m = 9 \<or> m = 11 then 30 else 31)"

fun next_day :: "int \<times> nat \<times> nat \<Rightarrow> int \<times> nat \<times> nat" where
  "next_day (y, m, d) =
    (if d < days_in_month y m then (y, m, d + 1)
     else if m < 12 then (y, m + 1, 1)
     else (y + 1, 1, 1))"

fun prev_day :: "int \<times> nat \<times> nat \<Rightarrow> int \<times> nat \<times> nat" where
  "prev_day (y, m, d) =
    (if 1 < d then (y, m, d - 1)
     else if 1 < m then (y, m - 1, days_in_month y (m - 1))
     else (y - 1, 12, 31))"

definition epoch :: "int \<times> nat \<times> nat" where
  "epoch = (1970, 1, 1)"

definition civil_from_days :: "int \<Rightarrow> int \<times> nat \<times> nat" where
  "civil_from_days z =
    (if 0 \<le> z then (next_day ^^ nat z) epoch else (prev_day ^^ nat (- z)) epoch)"

text \<open>The last \<open>k\<close> decimal digits of a non-negative integer.\<close>

fun pad :: "nat \<Rightarrow> int \<Rightarrow> string" where
  "pad 0 n = []"
| "pad (Suc k) n = pad k (n div 10) @ [digit_char (nat (n mod 10))]"

definition year_string :: "int \<Rightarrow> string" where
  "year_string y =
    (if 0 \<le> y \<and> y \<le> 9999 then pad 4 y
     else (if y < 0 then ''-'' else ''+'') @ pad 6 \<bar>y\<bar>)"

definition iso_date :: "int \<times> nat \<times> nat \<Rightarrow> string" where
  "iso_date ymd =
    (case ymd of (y, m, d) \<Rightarrow> year_string y @ ''-'' @ pad 2 (int m) @ ''-'' @ pad 2 (int d))"

definition date_key :: "int \<Rightarrow> string" where
  "date_key ts = take 10 (iso_date (civil_from_days (ts div 86400000)))"

definition dayKey :: "int \<Rightarrow> js_error + string" where
  "dayKey ts =
    (if \<bar>ts\<bar> > 8640000000000000 then Inl (RangeError ''Invalid time value'')
     else Inr (date_key ts))"

text \<open>
  A counting object such as \<^verbatim>\<open>rec.icons\<close>, and the \<^verbatim>\<open>Map\<close> \<^verbatim>\<open>byDay\<close>: association
  lists in insertion order, which is the order \<^verbatim>\<open>Object.entries\<close> and
  \<^verbatim>\<open>Map.entries\<close> enumerate. For an object this holds for keys that are neither
  array indices nor property names inherited from \<^verbatim>\<open>Object.prototype\<close>; such
  keys are outside the model (\<open>plain_key\<close> below).
  \<^verbatim>\<open>obj[k] = (obj[k] || 0) + 1\<close> keeps the position of a key already present.
\<close>

definition bump :: "string \<Rightarrow> (string \<times> nat) list \<Rightarrow> (string \<times> nat) list" where
  "bump k obj = AList.update k ((case map_of obj k of None \<Rightarrow> 0 | Some c \<Rightarrow> c) + 1) obj"

text \<open>
  \<^verbatim>\<open>Object.entries(obj).sort((a, b) => b[1] - a[1])[0]?.[0]\<close>: the key of the first
  entry after a stable sort by descending count; \<open>None\<close> is \<^verbatim>\<open>undefined\<close>.
\<close>

definition top_key :: "(string \<times> nat) list \<Rightarrow> string option" where
  "top_key obj =
    (case sort_key (\<lambda>e. - int (snd e)) obj of
       [] \<Rightarrow> None
     | e # _ \<Rightarrow> Some (fst e))"

text \<open>\<^verbatim>\<open>s || dflt\<close> for an optional string: \<^verbatim>\<open>undefined\<close> and the empty string are falsy.\<close>

definition or_default :: "string option \<Rightarrow> string \<Rightarrow> string" where
  "or_default s dflt = (case s of None \<Rightarrow> dflt | Some v \<Rightarrow> if v = [] then dflt else v)"

section \<open>options.js: requests and responses\<close>

text \<open>
  The three endpoints, and a request: endpoint, latitude, longitude and the
  \<^verbatim>\<open>exclude\<close> parameter. (\<^verbatim>\<open>units=metric\<close> and the \<^verbatim>\<open>appid\<close> are the same in
  every request.) Coordinates are only interpolated into the URL, so their type is
  left open.
\<close>

datatype api = OneCall30 | OneCall25 | Forecast25

datatype 'c url = Url api 'c 'c string

text \<open>An element of \<^verbatim>\<open>weather\<close>; an absent property is \<open>None\<close>.\<close>

record condition =
  icon :: "string option"
  description :: "string option"

text \<open>
  The object \<^verbatim>\<open>main\<close> of a sample: its \<^verbatim>\<open>temp\<close> is a number, or \<open>None\<close> when
  the property is absent (\<^verbatim>\<open>undefined\<close>).
\<close>

record main_data =
  temp :: "rat option"

text \<open>
  A three-hour sample of \<^verbatim>\<open>list\<close>: \<open>dt\<close> in seconds, \<open>main\<close> (\<open>None\<close> when the
  sample has no \<^verbatim>\<open>main\<close>), and \<open>weather\<close> (empty when absent).
\<close>

record sample =
  dt :: "int option"
  main :: "main_data option"
  weather :: "condition list"

text \<open>An element of \<^verbatim>\<open>hourly\<close> of a One Call response.\<close>

record hourly_raw =
  h_dt :: "int option"
  h_temp :: "rat option"
  h_weather :: "condition list"

text \<open>
  A parsed JSON body: each of the three arrays the code reads, \<open>None\<close> when the
  property is missing or not an array. The elements of \<^verbatim>\<open>daily\<close> are returned as
  they are, so their type is left open.
\<close>

record 'd body =
  daily :: "'d list option"
  hourly :: "hourly_raw list option"
  list :: "sample list option"

text \<open>
  A response: \<^verbatim>\<open>r.ok\<close> and the outcome of \<^verbatim>\<open>await r.json()\<close>. \<^verbatim>\<open>fetch\<close> itself either
  rejects or resolves with a response; the network is a function from requests to
  these outcomes.
\<close>

record 'd response =
  ok :: bool
  json :: "js_error + 'd body"

datatype 'd fetch_result = Rejected js_error | Resolved "'d response"

text \<open>\<^verbatim>\<open>Array.isArray(a) ? a : []\<close>.\<close>

definition array_or_empty :: "'a list option \<Rightarrow> 'a list" where
  "array_or_empty a = (case a of None \<Rightarrow> [] | Some xs \<Rightarrow> xs)"

section \<open>options.js: getForecast10Days\<close>

text \<open>The entries returned: a daily element as received, or a synthesized day.\<close>

record day_entry =
  day_dt :: int
  temp_min :: jsnum
  temp_max :: jsnum
  day_weather :: "condition list"

datatype 'd forecast_day = Daily 'd | Synthesized day_entry

text \<open>The per-day record \<^verbatim>\<open>rec\<close> of the third tier.\<close>

record day_rec =
  temps :: "rat option list"
  icons :: "(string \<times> nat) list"
  descs :: "(string \<times> nat) list"
  rec_dt :: int

text \<open>\<^verbatim>\<open>item.weather && item.weather[0]?.icon\<close> and the same for the description.\<close>

definition first_icon :: "condition list \<Rightarrow> string option" where
  "first_icon ws = (case ws of [] \<Rightarrow> None | w # _ \<Rightarrow> icon w)"

definition first_description :: "condition list \<Rightarrow> string option" where
  "first_description ws = (case ws of [] \<Rightarrow> None | w # _ \<Rightarrow> description w)"

text \<open>
  \<^verbatim>\<open>(item.dt || 0) * 1000\<close>. The product of an integer \<open>dt\<close> and 1000 is exact in
  doubles up to the largest valid time value, and so is \<^verbatim>\<open>Math.floor(ts / 1000)\<close>.
\<close>

definition sample_ts :: "sample \<Rightarrow> int" where
  "sample_ts item = (case dt item of None \<Rightarrow> 0 | Some d \<Rightarrow> d) * 1000"

text \<open>\<^verbatim>\<open>if (icon) rec.icons[icon] = (rec.icons[icon] || 0) + 1\<close>.\<close>

definition count_key :: "string option \<Rightarrow> (string \<times> nat) list \<Rightarrow> (string \<times> nat) list" where
  "count_key k obj = (case k of None \<Rightarrow> obj | Some s \<Rightarrow> if s = [] then obj else bump s obj)"

text \<open>
  One iteration of \<^verbatim>\<open>for (const item of list)\<close>. The test is on \<^verbatim>\<open>item.main\<close>;
  what is pushed is \<^verbatim>\<open>item.main.temp\<close>, \<^verbatim>\<open>undefined\<close> included.
\<close>

definition add_sample ::
  "(string \<times> day_rec) list \<Rightarrow> sample \<Rightarrow> js_error + (string \<times> day_rec) list" where
  "add_sample byDay item =
    (let ts = sample_ts item in
     case dayKey ts of
       Inl err \<Rightarrow> Inl err
     | Inr key \<Rightarrow>
        (let rec0 = (case map_of byDay key of
                       Some r \<Rightarrow> r
                     | None \<Rightarrow> \<lparr>temps = [], icons = [], descs = [], rec_dt = ts div 1000\<rparr>);
             rec1 = (case main item of
                       Some m \<Rightarrow> rec0\<lparr>temps := temps rec0 @ [temp m]\<rparr>
                     | None \<Rightarrow> rec0);
             rec2 = rec1\<lparr>icons := count_key (first_icon (weather item)) (icons rec1)\<rparr>;
             rec3 = rec2\<lparr>descs := count_key (first_description (weather item)) (descs rec2)\<rparr>
         in Inr (AList.update key rec3 byDay)))"

fun group_by_day ::
  "(string \<times> day_rec) list \<Rightarrow> sample list \<Rightarrow> js_error + (string \<times> day_rec) list" where
  "group_by_day byDay [] = Inr byDay"
| "group_by_day byDay (item # items) =
    (case add_sample byDay item of
       Inl err \<Rightarrow> Inl err
     | Inr byDay' \<Rightarrow> group_by_day byDay' items)"

text \<open>The callback of \<^verbatim>\<open>.map(([_, rec]) => ...)\<close>.\<close>

definition summarize :: "day_rec \<Rightarrow> day_entry" where
  "summarize r =
    \<lparr>day_dt = rec_dt r,
     temp_min = Math_round (Math_min (temps r)),
     temp_max = Math_round (Math_max (temps r)),
     day_weather = [\<lparr>icon = Some (or_default (top_key (icons r)) ''01d''),
                     description = Some (or_default (top_key (descs r)) [])\<rparr>]\<rparr>"

text \<open>
  \<^verbatim>\<open>Array.from(byDay.entries()).sort((a, b) => (a[0] < b[0] ? -1 : 1)).slice(...).map(...)\<close>.
  The keys of a \<^verbatim>\<open>Map\<close> are distinct, so the comparator orders the entries by
  ascending key; strings compare by code unit.
\<close>

definition synthesize_days :: "int \<Rightarrow> (string \<times> day_rec) list \<Rightarrow> day_entry list" where
  "synthesize_days count byDay =
    map (\<lambda>e. summarize (snd e)) (slice0 (clamp_count count) (sort_key fst byDay))"

definition url_daily :: "api \<Rightarrow> 'c \<Rightarrow> 'c \<Rightarrow> 'c url" where
  "url_daily a lat lon = Url a lat lon ''current,minutely,hourly,alerts''"

definition url_forecast :: "'c \<Rightarrow> 'c \<Rightarrow> 'c url" where
  "url_forecast lat lon = Url Forecast25 lat lon []"

text \<open>
  A One Call tier: the \<^verbatim>\<open>try\<close> block returns from the function (\<open>Some\<close>) or falls
  out of it; its \<^verbatim>\<open>catch (_) {}\<close> swallows a rejected fetch and a failed parse.
\<close>

definition daily_tier :: "'d fetch_result \<Rightarrow> int \<Rightarrow> 'd list option" where
  "daily_tier outcome count =
    (case outcome of
       Rejected _ \<Rightarrow> None
     | Resolved r \<Rightarrow>
        if ok r then
          (case json r of
             Inl _ \<Rightarrow> None
           | Inr d \<Rightarrow>
              (let daily' = array_or_empty (daily d) in
               if daily' \<noteq> [] then Some (slice0 (clamp_count count) daily') else None))
        else None)"

text \<open>
  The third tier and the final \<^verbatim>\<open>throw\<close>: its \<^verbatim>\<open>catch (err) { throw err; }\<close> passes
  every error on.
\<close>

definition forecast_tier :: "'d fetch_result \<Rightarrow> int \<Rightarrow> js_error + day_entry list" where
  "forecast_tier outcome count =
    (case outcome of
       Rejected err \<Rightarrow> Inl err
     | Resolved r \<Rightarrow>
        if \<not> ok r then Inl (Error ''forecast 3h not available'')
        else
          (case json r of
             Inl err \<Rightarrow> Inl err
           | Inr d \<Rightarrow>
              (case group_by_day [] (array_or_empty (list d)) of
                 Inl err \<Rightarrow> Inl err
               | Inr byDay \<Rightarrow>
                  (let days = synthesize_days count byDay in
                   if days \<noteq> [] then Inr days
                   else Inl (Error ''No forecast data available'')))))"

text \<open>
  \<^verbatim>\<open>getForecast10Days(lat, lon, count = 10)\<close>; \<open>None\<close> is an omitted \<open>count\<close>. The
  result is paired with the requests made, in order.
\<close>

definition getForecast10Days ::
  "('c url \<Rightarrow> 'd fetch_result) \<Rightarrow> 'c \<Rightarrow> 'c \<Rightarrow> int option
    \<Rightarrow> 'c url list \<times> (js_error + 'd forecast_day list)" where
  "getForecast10Days fetch lat lon count_arg =
    (let count = (case count_arg of None \<Rightarrow> 10 | Some c \<Rightarrow> c);
         url30 = url_daily OneCall30 lat lon;
         url25 = url_daily OneCall25 lat lon;
         url3h = url_forecast lat lon
     in case daily_tier (fetch url30) count of
          Some days \<Rightarrow> ([url30], Inr (map Daily days))
        | None \<Rightarrow>
           (case daily_tier (fetch url25) count of
              Some days \<Rightarrow> ([url30, url25], Inr (map Daily days))
            | None \<Rightarrow>
               ([url30, url25, url3h],
                map_sum id (map Synthesized) (forecast_tier (fetch url3h) count))))"

section \<open>options.js: getHourly24\<close>

record hour_entry =
  hour_dt :: "int option"
  hour_temp :: "rat option"
  hour_icon :: string
  hour_description :: string

text \<open>The callback of \<^verbatim>\<open>arr.map((h) => ...)\<close> of the One Call tiers.\<close>

definition hour_of_raw :: "hourly_raw \<Rightarrow> hour_entry" where
  "hour_of_raw h =
    \<lparr>hour_dt = h_dt h,
     hour_temp = h_temp h,
     hour_icon = or_default (first_icon (h_weather h)) ''01d'',
     hour_description = or_default (first_description (h_weather h)) []\<rparr>"

text \<open>The body of \<^verbatim>\<open>for (const it of list)\<close>; \<^verbatim>\<open>it.main?.temp ?? 0\<close>.\<close>

definition hour_of_sample :: "sample \<Rightarrow> hour_entry" where
  "hour_of_sample it =
    \<lparr>hour_dt = dt it,
     hour_temp = Some (case main it of
                         None \<Rightarrow> 0
                       | Some m \<Rightarrow> (case temp m of None \<Rightarrow> 0 | Some t \<Rightarrow> t)),
     hour_icon = or_default (first_icon (weather it)) ''01d'',
     hour_description = or_default (first_description (weather it)) []\<rparr>"

definition url_hourly :: "api \<Rightarrow> 'c \<Rightarrow> 'c \<Rightarrow> 'c url" where
  "url_hourly a lat lon = Url a lat lon ''current,minutely,daily,alerts''"

definition hourly_tier :: "'d fetch_result \<Rightarrow> hour_entry list option" where
  "hourly_tier outcome =
    (case outcome of
       Rejected _ \<Rightarrow> None
     | Resolved r \<Rightarrow>
        if ok r then
          (case json r of
             Inl _ \<Rightarrow> None
           | Inr d \<Rightarrow>
              (let arr = (case hourly d of None \<Rightarrow> [] | Some hs \<Rightarrow> slice0 24 hs) in
               if arr \<noteq> [] then Some (map hour_of_raw arr) else None))
        else None)"

definition hourly_fallback :: "'d fetch_result \<Rightarrow> js_error + hour_entry list" where
  "hourly_fallback outcome =
    (case outcome of
       Rejected err \<Rightarrow> Inl err
     | Resolved r \<Rightarrow>
        if \<not> ok r then Inl (Error ''forecast 3h not available'')
        else
          (case json r of
             Inl err \<Rightarrow> Inl err
           | Inr d \<Rightarrow>
              (let list' = (case list d of None \<Rightarrow> [] | Some l \<Rightarrow> slice0 9 l);
                   hours = map hour_of_sample list'
               in Inr (slice0 24 hours))))"

definition getHourly24 ::
  "('c url \<Rightarrow> 'd fetch_result) \<Rightarrow> 'c \<Rightarrow> 'c \<Rightarrow> 'c url list \<times> (js_error + hour_entry list)" where
  "getHourly24 fetch lat lon =
    (let url30 = url_hourly OneCall30 lat lon;
         url25 = url_hourly OneCall25 lat lon;
         url3h = url_forecast lat lon
     in case hourly_tier (fetch url30) of
          Some hours \<Rightarrow> ([url30], Inr hours)
        | None \<Rightarrow>
           (case hourly_tier (fetch url25) of
              Some hours \<Rightarrow> ([url30, url25], Inr hours)
            | None \<Rightarrow> ([url30, url25, url3h], hourly_fallback (fetch url3h))))"

section \<open>Tier outcomes and example networks\<close>

text \<open>
  A One Call tier yields nothing when its fetch is rejected, its status is not a
  success, its body does not parse, or the array read from the body is missing or
  empty. It has failed in the first three cases.
\<close>

definition tier_failed :: "'d fetch_result \<Rightarrow> bool" where
  "tier_failed outcome =
    (case outcome of
       Rejected _ \<Rightarrow> True
     | Resolved r \<Rightarrow> \<not> ok r \<or> isl (json r))"

definition daily_nothing :: "'d fetch_result \<Rightarrow> bool" where
  "daily_nothing outcome =
    (case outcome of
       Rejected _ \<Rightarrow> True
     | Resolved r \<Rightarrow> \<not> ok r \<or> (case json r of Inl _ \<Rightarrow> True | Inr d \<Rightarrow> array_or_empty (daily d) = []))"

definition hourly_nothing :: "'d fetch_result \<Rightarrow> bool" where
  "hourly_nothing outcome =
    (case outcome of
       Rejected _ \<Rightarrow> True
     | Resolved r \<Rightarrow> \<not> ok r \<or> (case json r of Inl _ \<Rightarrow> True | Inr d \<Rightarrow> array_or_empty (hourly d) = []))"

text \<open>A successful response carrying the given arrays.\<close>

definition ok_response :: "'d list option \<Rightarrow> hourly_raw list option \<Rightarrow> sample list option \<Rightarrow> 'd fetch_result" where
  "ok_response ds hs xs = Resolved \<lparr>ok = True, json = Inr \<lparr>daily = ds, hourly = hs, list = xs\<rparr>\<rparr>"

text \<open>A response with a non-success status, such as 401 for a key without access.\<close>

definition denied :: "'d fetch_result" where
  "denied = Resolved \<lparr>ok = False, json = Inr \<lparr>daily = None, hourly = None, list = None\<rparr>\<rparr>"

text \<open>Every request answered with a non-success status.\<close>

definition network_denied :: "int url \<Rightarrow> nat fetch_result" where
  "network_denied u = denied"

text \<open>
  Both One Call endpoints refuse, and the 5-day/3-hour endpoint answers with the
  given samples.
\<close>

definition network_forecast_only :: "sample list \<Rightarrow> int url \<Rightarrow> nat fetch_result" where
  "network_forecast_only xs u =
    (case u of
       Url Forecast25 _ _ _ \<Rightarrow> ok_response None None (Some xs)
     | Url _ _ _ _ \<Rightarrow> denied)"

text \<open>One Call 3.0 answers with the given daily and hourly arrays; nothing else is reachable.\<close>

definition network_onecall30 :: "nat list \<Rightarrow> hourly_raw list \<Rightarrow> int url \<Rightarrow> nat fetch_result" where
  "network_onecall30 ds hs u =
    (case u of
       Url OneCall30 _ _ _ \<Rightarrow> ok_response (Some ds) (Some hs) None
     | Url _ _ _ _ \<Rightarrow> Rejected (TypeError ''Failed to fetch''))"

text \<open>One Call 3.0 is unreachable, One Call 2.5 answers with the given daily array.\<close>

definition network_onecall25 :: "nat list \<Rightarrow> int url \<Rightarrow> nat fetch_result" where
  "network_onecall25 ds u =
    (case u of
       Url OneCall25 _ _ _ \<Rightarrow> ok_response (Some ds) None None
     | Url _ _ _ _ \<Rightarrow> Rejected (TypeError ''Failed to fetch''))"

text \<open>Nothing is reachable: every fetch is rejected.\<close>

definition network_unreachable :: "int url \<Rightarrow> nat fetch_result" where
  "network_unreachable u = Rejected (TypeError ''Failed to fetch'')"

section \<open>Day buckets, stated on the list of samples\<close>

text \<open>
  The notions the third tier is specified by. A sample's key is the first ten
  characters of the ISO rendering of its timestamp; the bucket of a key holds the
  samples with that key, in the order received; the keys of a list are its distinct
  keys in ascending order.
\<close>

definition sample_key :: "sample \<Rightarrow> string" where
  "sample_key item = date_key (sample_ts item)"

definition bucket :: "string \<Rightarrow> sample list \<Rightarrow> sample list" where
  "bucket k items = filter (\<lambda>item. sample_key item = k) items"

definition day_keys :: "sample list \<Rightarrow> string list" where
  "day_keys items = sort (remdups (map sample_key items))"

text \<open>
  What the samples that have \<^verbatim>\<open>main\<close> push to \<open>temps\<close>, the numeric temperatures
  among them, and whether a sample has a \<^verbatim>\<open>main\<close> without a numeric \<^verbatim>\<open>temp\<close>.
\<close>

definition pushed_temps :: "sample list \<Rightarrow> rat option list" where
  "pushed_temps items = List.map_filter (\<lambda>item. map_option temp (main item)) items"

definition sample_temps :: "sample list \<Rightarrow> rat list" where
  "sample_temps items = List.map_filter (\<lambda>t. t) (pushed_temps items)"

definition missing_temp :: "sample list \<Rightarrow> bool" where
  "missing_temp items = list_ex (\<lambda>t. t = None) (pushed_temps items)"

text \<open>The truthy icons, and descriptions, of the first \<^verbatim>\<open>weather\<close> elements.\<close>

definition truthy :: "string option \<Rightarrow> string list" where
  "truthy s = (case s of None \<Rightarrow> [] | Some v \<Rightarrow> if v = [] then [] else [v])"

definition sample_icons :: "sample list \<Rightarrow> string list" where
  "sample_icons items = concat (map (\<lambda>item. truthy (first_icon (weather item))) items)"

definition sample_descriptions :: "sample list \<Rightarrow> string list" where
  "sample_descriptions items = concat (map (\<lambda>item. truthy (first_description (weather item))) items)"

text \<open>\<open>s\<close> is a most frequent element of \<open>ks\<close>.\<close>

definition is_mode :: "string \<Rightarrow> string list \<Rightarrow> bool" where
  "is_mode s ks = (s \<in> set ks \<and> list_all (\<lambda>k. count_list ks k \<le> count_list ks s) ks)"

text \<open>
  Keys for which a counting object behaves as the association list above: not
  made of digits only (array indices are enumerated first by \<^verbatim>\<open>Object.entries\<close>)
  and not a property name inherited from \<^verbatim>\<open>Object.prototype\<close> (for which
  \<^verbatim>\<open>obj[k] || 0\<close> is not a number). The icon codes and descriptions of the
  weather service are such keys.
\<close>

definition inherited_names :: "string list" where
  "inherited_names =
    [''constructor'', ''hasOwnProperty'', ''isPrototypeOf'', ''propertyIsEnumerable'',
     ''toLocaleString'', ''toString'', ''valueOf'', ''__proto__'',
     ''__defineGetter__'', ''__defineSetter__'', ''__lookupGetter__'', ''__lookupSetter__'']"

definition plain_key :: "string \<Rightarrow> bool" where
  "plain_key s = (s \<notin> set inherited_names \<and> \<not> list_all (\<lambda>c. c \<in> set ''0123456789'') s)"

definition plain_sample :: "sample \<Rightarrow> bool" where
  "plain_sample item =
    (list_all plain_key (truthy (first_icon (weather item)))
     \<and> list_all plain_key (truthy (first_description (weather item))))"

text \<open>The timestamp is a valid time value, and its year is written with four digits.\<close>

definition valid_time :: "sample \<Rightarrow> bool" where
  "valid_time item = (\<bar>sample_ts item\<bar> \<le> 8640000000000000)"

definition four_digit_year :: "sample \<Rightarrow> bool" where
  "four_digit_year item =
    (case civil_from_days (sample_ts item div 86400000) of
       (y, m, d) \<Rightarrow> 0 \<le> y \<and> y \<le> 9999)"

text \<open>
  What a synthesized entry must be for a non-empty bucket: the timestamp of the
  bucket's first sample, the rounded least and greatest temperature, and a most
  frequent icon and description (the defaults \<^verbatim>\<open>"01d"\<close> and \<^verbatim>\<open>""\<close> when the bucket
  has none). Without a temperature the bounds are \<^verbatim>\<open>Infinity\<close> and \<^verbatim>\<open>-Infinity\<close>;
  with a \<^verbatim>\<open>main\<close> that has no numeric \<^verbatim>\<open>temp\<close> in the bucket they are \<^verbatim>\<open>NaN\<close>.
\<close>

definition summarizes :: "sample list \<Rightarrow> day_entry \<Rightarrow> bool" where
  "summarizes b e =
    (day_dt e = sample_ts (hd b) div 1000
     \<and> temp_min e = (if missing_temp b then NaN
                     else if sample_temps b = [] then Infinity
                     else Finite (of_int \<lfloor>Min (set (sample_temps b)) + 1 / 2\<rfloor>))
     \<and> temp_max e = (if missing_temp b then NaN
                     else if sample_temps b = [] then MinusInfinity
                     else Finite (of_int \<lfloor>Max (set (sample_temps b)) + 1 / 2\<rfloor>))
     \<and> (case day_weather e of
          [w] \<Rightarrow> (case (icon w, description w) of
                    (Some i, Some d) \<Rightarrow>
                      (if sample_icons b = [] then i = ''01d'' else is_mode i (sample_icons b))
                      \<and> (if sample_descriptions b = [] then d = [] else is_mode d (sample_descriptions b))
                  | _ \<Rightarrow> False)
        | _ \<Rightarrow> False))"

text \<open>The counting object built from a list of keys, one \<open>bump\<close> per key.\<close>

definition counts :: "string list \<Rightarrow> (string \<times> nat) list" where
  "counts ks = foldl (\<lambda>obj k. bump k obj) [] ks"

text \<open>The record \<^verbatim>\<open>rec\<close> the loop has built for a bucket once it has seen all of it.\<close>

definition rec_of :: "sample list \<Rightarrow> day_rec" where
  "rec_of b =
    \<lparr>temps = pushed_temps b, icons = counts (sample_icons b),
     descs = counts (sample_descriptions b), rec_dt = sample_ts (hd b) div 1000\<rparr>"

text \<open>The keys of a list in the order of their first occurrence.\<close>

definition first_keys :: "sample list \<Rightarrow> string list" where
  "first_keys items = rev (remdups (rev (map sample_key items)))"

text \<open>The map \<^verbatim>\<open>byDay\<close> the loop has built once it has seen all samples.\<close>

definition grouped :: "sample list \<Rightarrow> (string \<times> day_rec) list" where
  "grouped xs = map (\<lambda>k. (k, rec_of (bucket k xs))) (first_keys xs)"

text \<open>A date of the calendar: a month from 1 to 12 and a day of that month.\<close>

definition valid_date :: "int \<times> nat \<times> nat \<Rightarrow> bool" where
  "valid_date ymd = (case ymd of (y, m, d) \<Rightarrow> 1 \<le> m \<and> m \<le> 12 \<and> 1 \<le> d \<and> d \<le> days_in_month y m)"

text \<open>A sample that carries a temperature, an icon and a description.\<close>

definition has_data :: "sample \<Rightarrow> bool" where
  "has_data item =
    ((case main item of None \<Rightarrow> False | Some m \<Rightarrow> temp m \<noteq> None)
     \<and> truthy (first_icon (weather item)) \<noteq> []
     \<and> truthy (first_description (weather item)) \<noteq> [])"

text \<open>
  Sixteen three-hour samples from 1970-01-01T00:00Z on: eight on the first day and
  eight on the second.
\<close>

definition sample_at :: "int \<Rightarrow> rat \<Rightarrow> string \<Rightarrow> string \<Rightarrow> sample" where
  "sample_at t celsius i d =
    \<lparr>dt = Some t, main = Some \<lparr>temp = Some celsius\<rparr>,
     weather = [\<lparr>icon = Some i, description = Some d\<rparr>]\<rparr>"

definition two_day_samples :: "sample list" where
  "two_day_samples =
    [sample_at 0 (21 / 2) ''01n'' ''clear sky'',
     sample_at 10800 (19 / 2) ''01n'' ''clear sky'',
     sample_at 21600 9 ''02d'' ''few clouds'',
     sample_at 32400 (25 / 2) ''10d'' ''light rain'',
     sample_at 43200 (31 / 2) ''10d'' ''light rain'',
     sample_at 54000 (63 / 4) ''10d'' ''moderate rain'',
     sample_at 64800 13 ''02n'' ''few clouds'',
     sample_at 75600 (23 / 2) ''01n'' ''clear sky'',
     sample_at 86400 (-3 / 2) ''13n'' ''snow'',
     sample_at 97200 (-5 / 2) ''13n'' ''snow'',
     sample_at 108000 (-2) ''13d'' ''light snow'',
     sample_at 118800 (1 / 4) ''04d'' ''overcast clouds'',
     sample_at 129600 (3 / 2) ''04d'' ''overcast clouds'',
     sample_at 140400 1 ''04d'' ''overcast clouds'',
     sample_at 151200 0 ''04n'' ''overcast clouds'',
     sample_at 162000 (-1 / 2) ''13n'' ''snow'']"



section \<open>Properties of the climate classifier\<close>


lemma index_nth: "0 \<le> i \<Longrightarrow> i < int (length xs) \<Longrightarrow> index xs i = Some (xs ! nat i)"
  by (simp add: index_def)

lemma read_cell_rectangular:
  assumes "rectangular g" "0 \<le> r" "r < height g" "0 \<le> c" "c < width g"
  shows "read_cell g r c = Inr (Number (values g ! 0 ! nat r ! nat c))"
proof -
  obtain band rest where v: "values g = band # rest"
    using assms(1) by (cases "values g") (auto simp: rectangular_def)
  from assms(1) v have len: "int (length band) = height g"
    and rows: "\<forall>row\<in>set band. int (length row) = width g"
    by (auto simp: rectangular_def list_all_iff)
  have r: "nat r < length band" using assms(2,3) len by linarith
  then have "band ! nat r \<in> set band" by simp
  with rows have "int (length (band ! nat r)) = width g" by blast
  with assms(4,5) have c: "index (band ! nat r) c = Some (band ! nat r ! nat c)"
    by (simp add: index_def)
  have "index band r = Some (band ! nat r)" using assms(2,3) len by (simp add: index_def)
  with c v show ?thesis by (simp add: read_cell_def index_def)
qed

text \<open>The doubles of the examples are the nearest doubles of their decimals.\<close>

lemma nearest_doubles:
  "round_double (1 / 10) = Some double_0_1"
  "round_double (1005 / 100) = Some double_10_05"
  "round_double (2005 / 100) = Some double_20_05"
  "round_double (1 / 100) = Some double_0_01"
  "round_double (3 / 10) = Some double_0_3"
  "round_double (3278 / 100) = Some double_32_78"
  by code_simp+

text \<open>Rounding decides the cell at a boundary: exactly, \<open>0.5 / 0.1\<close> lies below 5.\<close>

lemma rounded_quotient:
  "pixel_index (- 359 / 2) (- 180) double_0_1 = Some 5"
  "\<lfloor>(- 359 / 2 - (- 180)) / double_0_1\<rfloor> = 4"
  "pixel_index double_32_78 (- double_0_3) double_0_01 = Some 3307"
  "\<lfloor>(double_32_78 - (- double_0_3)) / double_0_01\<rfloor> = 3308"
  by code_simp+

lemma scenario_indices:
  "pixel_index double_20_05 (- 180) double_0_1 = Some 2000"
  "pixel_index 90 double_10_05 double_0_1 = Some 799"
  by code_simp+

lemma getClimate_in_bounds:
  assumes "xPixel lon g = Some c" and "yPixel lat g = Some r"
    and "0 \<le> r" and "r < height g" and "0 \<le> c" and "c < width g" and "rectangular g"
  shows "getClimate lat lon (Some g) =
    Inr \<lparr>climateCode = Number (values g ! 0 ! nat r ! nat c),
         climateType = (case map_of koppenClasses (values g ! 0 ! nat r ! nat c) of
                          Some name \<Rightarrow> name
                        | None \<Rightarrow> ''Code '' @ show_int (values g ! 0 ! nat r ! nat c))\<rparr>"
  using assms read_cell_rectangular [OF assms(7,3,4,5,6)]
  by (simp add: getClimate_def getClimate_try_def in_bounds_def class_name_def)

text \<open>
  Claim C2. \<open>getClimate\<close> computes the column index as the floor of the double
  quotient of the double difference \<open>lon - xmin\<close> by \<open>pixelWidth\<close>, and the row
  index as the floor of the double quotient of the double difference \<open>ymax - lat\<close>
  by \<open>|pixelHeight|\<close>. When the pair lies within \<open>[0, height) \<times> [0, width)\<close> of a
  rectangular grid, the returned code is the value stored at \<open>[row][column]\<close> of
  band 0 and the name is the table's name for that code, or \<open>Code\<close> followed by
  the value when the table has none. For the grid with origin (90, -180), cells
  of 0.1 degrees, width 3600 and height 1800, the coordinate (10.05, 20.05), each
  decimal read as its nearest double, gives column 2000 and row 799 and reads
  cell \<open>[799][2000]\<close>.
\<close>

theorem getClimate_reads_cell:
  "(\<forall>g lat lon r c.
      xPixel lon g = Some c \<and> yPixel lat g = Some r
      \<and> 0 \<le> r \<and> r < height g \<and> 0 \<le> c \<and> c < width g \<and> rectangular g
      \<longrightarrow> getClimate lat lon (Some g) =
            Inr \<lparr>climateCode = Number (values g ! 0 ! nat r ! nat c),
                 climateType = (case map_of koppenClasses (values g ! 0 ! nat r ! nat c) of
                                  Some name \<Rightarrow> name
                                | None \<Rightarrow> ''Code '' @ show_int (values g ! 0 ! nat r ! nat c))\<rparr>)
   \<and> (\<forall>g lon d q.
        round_double (lon - xmin g) = Some d \<and> pixelWidth g \<noteq> 0
        \<and> round_double (d / pixelWidth g) = Some q
        \<longrightarrow> xPixel lon g = Some \<lfloor>q\<rfloor>)
   \<and> (\<forall>g lat d q.
        round_double (ymax g - lat) = Some d \<and> pixelHeight g \<noteq> 0
        \<and> round_double (d / \<bar>pixelHeight g\<bar>) = Some q
        \<longrightarrow> yPixel lat g = Some \<lfloor>q\<rfloor>)
   \<and> (\<forall>g. xmin g = - 180 \<and> ymax g = 90 \<and> pixelWidth g = double_0_1 \<and> \<bar>pixelHeight g\<bar> = double_0_1
          \<and> width g = 3600 \<and> height g = 1800 \<and> rectangular g
      \<longrightarrow> xPixel double_20_05 g = Some 2000 \<and> yPixel double_10_05 g = Some 799
        \<and> getClimate double_10_05 double_20_05 (Some g) =
            Inr \<lparr>climateCode = Number (values g ! 0 ! 799 ! 2000),
                 climateType = (case map_of koppenClasses (values g ! 0 ! 799 ! 2000) of
                                  Some name \<Rightarrow> name
                                | None \<Rightarrow> ''Code '' @ show_int (values g ! 0 ! 799 ! 2000))\<rparr>)"
proof (intro conjI allI impI)
  fix g :: georaster and lat lon :: rat and r c :: int
  assume a: "xPixel lon g = Some c \<and> yPixel lat g = Some r
      \<and> 0 \<le> r \<and> r < height g \<and> 0 \<le> c \<and> c < width g \<and> rectangular g"
  then show "getClimate lat lon (Some g) =
            Inr \<lparr>climateCode = Number (values g ! 0 ! nat r ! nat c),
                 climateType = (case map_of koppenClasses (values g ! 0 ! nat r ! nat c) of
                                  Some name \<Rightarrow> name
                                | None \<Rightarrow> ''Code '' @ show_int (values g ! 0 ! nat r ! nat c))\<rparr>"
    by (intro getClimate_in_bounds) simp_all
next
  fix g :: georaster and lon d q :: rat
  assume "round_double (lon - xmin g) = Some d \<and> pixelWidth g \<noteq> 0
        \<and> round_double (d / pixelWidth g) = Some q"
  then show "xPixel lon g = Some \<lfloor>q\<rfloor>" by (simp add: xPixel_def pixel_index_def)
next
  fix g :: georaster and lat d q :: rat
  assume "round_double (ymax g - lat) = Some d \<and> pixelHeight g \<noteq> 0
        \<and> round_double (d / \<bar>pixelHeight g\<bar>) = Some q"
  then show "yPixel lat g = Some \<lfloor>q\<rfloor>" by (simp add: yPixel_def pixel_index_def)
next
  fix g :: georaster
  assume a: "xmin g = - 180 \<and> ymax g = 90 \<and> pixelWidth g = double_0_1 \<and> \<bar>pixelHeight g\<bar> = double_0_1
          \<and> width g = 3600 \<and> height g = 1800 \<and> rectangular g"
  then have p: "xmin g = - 180" "ymax g = 90" "pixelWidth g = double_0_1" "\<bar>pixelHeight g\<bar> = double_0_1"
    and wh: "width g = 3600" "height g = 1800" and rect: "rectangular g"
    by blast+
  show x: "xPixel double_20_05 g = Some 2000"
    unfolding xPixel_def p by (rule scenario_indices)
  show y: "yPixel double_10_05 g = Some 799"
    unfolding yPixel_def p by (rule scenario_indices)
  have "getClimate double_10_05 double_20_05 (Some g) =
    Inr \<lparr>climateCode = Number (values g ! 0 ! nat 799 ! nat 2000),
         climateType = (case map_of koppenClasses (values g ! 0 ! nat 799 ! nat 2000) of
                          Some name \<Rightarrow> name
                        | None \<Rightarrow> ''Code '' @ show_int (values g ! 0 ! nat 799 ! nat 2000))\<rparr>"
    using x y wh rect by (intro getClimate_in_bounds) simp_all
  then show "getClimate double_10_05 double_20_05 (Some g) =
            Inr \<lparr>climateCode = Number (values g ! 0 ! 799 ! 2000),
                 climateType = (case map_of koppenClasses (values g ! 0 ! 799 ! 2000) of
                                  Some name \<Rightarrow> name
                                | None \<Rightarrow> ''Code '' @ show_int (values g ! 0 ! 799 ! 2000))\<rparr>"
    by (simp cong: option.case_cong)
qed

lemma scenario_grid_rectangular: "rectangular scenario_grid"
  by (simp add: scenario_grid_def rectangular_def list_all_iff)
    (auto dest!: set_update_subset_insert [THEN subsetD])

lemma scenario_grid_cell: "values scenario_grid ! 0 ! 799 ! 2000 = 7"
  by (simp add: scenario_grid_def)

lemma boundary_grid_rectangular: "rectangular boundary_grid"
  by (simp add: boundary_grid_def rectangular_def)

theorem getClimate_reads_cell_witness:
  "getClimate double_10_05 double_20_05 (Some scenario_grid)
     = Inr \<lparr>climateCode = Number 7, climateType = ''Code 7''\<rparr>
   \<and> xPixel double_20_05 scenario_grid = Some 2000 \<and> yPixel double_10_05 scenario_grid = Some 799
   \<and> getClimate 90 double_32_78 (Some boundary_grid)
     = Inr \<lparr>climateCode = Number 4, climateType = ''Cold (D)''\<rparr>"
proof -
  have p: "xmin scenario_grid = - 180 \<and> ymax scenario_grid = 90
      \<and> pixelWidth scenario_grid = double_0_1 \<and> \<bar>pixelHeight scenario_grid\<bar> = double_0_1
      \<and> width scenario_grid = 3600 \<and> height scenario_grid = 1800 \<and> rectangular scenario_grid"
    using scenario_grid_rectangular by (simp add: scenario_grid_def double_0_1_def)
  note scen = getClimate_reads_cell [THEN conjunct2, THEN conjunct2, THEN conjunct2,
      THEN spec [of _ scenario_grid], THEN mp, OF p]
  have s: "show_int 7 = ''7''" by (simp add: show_int_def digit_char_def)
  have k: "map_of koppenClasses 7 = None" by (simp add: koppenClasses_def)
  have one: "getClimate double_10_05 double_20_05 (Some scenario_grid)
     = Inr \<lparr>climateCode = Number 7, climateType = ''Code 7''\<rparr>"
    using scen [THEN conjunct2, THEN conjunct2] by (simp add: scenario_grid_cell s k)
  have x: "xPixel double_32_78 boundary_grid = Some 3307"
    unfolding xPixel_def using rounded_quotient(3) by (simp add: boundary_grid_def)
  have y: "yPixel 90 boundary_grid = Some 0"
    by (simp add: yPixel_def boundary_grid_def pixel_index_def round_double_def)
  have b: "xPixel double_32_78 boundary_grid = Some 3307 \<and> yPixel 90 boundary_grid = Some 0
      \<and> (0::int) \<le> 0 \<and> 0 < height boundary_grid \<and> (0::int) \<le> 3307 \<and> 3307 < width boundary_grid
      \<and> rectangular boundary_grid"
    using x y boundary_grid_rectangular by (simp add: boundary_grid_def)
  note gen = getClimate_reads_cell [THEN conjunct1, THEN spec [of _ boundary_grid],
      THEN spec [of _ 90], THEN spec [of _ double_32_78], THEN spec [of _ 0], THEN spec [of _ 3307],
      THEN mp, OF b]
  have c: "values boundary_grid ! 0 ! nat 0 ! nat 3307 = 4" by (simp add: boundary_grid_def)
  have two: "getClimate 90 double_32_78 (Some boundary_grid)
     = Inr \<lparr>climateCode = Number 4, climateType = ''Cold (D)''\<rparr>"
    using gen unfolding c by (simp add: koppenClasses_def)
  from one two scen show ?thesis by blast
qed

text \<open>
  Claim C9. \<open>getClimate\<close> never throws: it returns a result for every coordinate
  and every georaster, present or absent. With the georaster absent, with a zero
  cell size, with an index that is not finite, or with the row or column that the
  double arithmetic computes outside \<open>[0, height) \<times> [0, width)\<close>, the result is
  exactly the code \<open>null\<close> with the name \<open>Unknown\<close>.
\<close>

theorem getClimate_never_throws:
  "(\<exists>result. getClimate lat lon georaster = Inr result)
   \<and> getClimate lat lon None = Inr \<lparr>climateCode = Null, climateType = ''Unknown''\<rparr>
   \<and> (\<forall>g::georaster.
        (pixelWidth g = 0 \<or> pixelHeight g = 0 \<or> xPixel lon g = None \<or> yPixel lat g = None
         \<or> (\<exists>r c. yPixel lat g = Some r \<and> xPixel lon g = Some c
                \<and> \<not> (0 \<le> r \<and> r < height g \<and> 0 \<le> c \<and> c < width g)))
        \<longrightarrow> getClimate lat lon (Some g) = Inr \<lparr>climateCode = Null, climateType = ''Unknown''\<rparr>)"
proof (intro conjI allI impI)
  show "\<exists>result. getClimate lat lon georaster = Inr result"
    by (simp add: getClimate_def split: sum.splits)
next
  show "getClimate lat lon None = Inr \<lparr>climateCode = Null, climateType = ''Unknown''\<rparr>"
    by (simp add: getClimate_def getClimate_try_def unknown_climate_def)
next
  fix g :: georaster
  assume "pixelWidth g = 0 \<or> pixelHeight g = 0 \<or> xPixel lon g = None \<or> yPixel lat g = None
         \<or> (\<exists>r c. yPixel lat g = Some r \<and> xPixel lon g = Some c
                \<and> \<not> (0 \<le> r \<and> r < height g \<and> 0 \<le> c \<and> c < width g))"
  moreover have "pixelWidth g = 0 \<Longrightarrow> xPixel lon g = None"
    by (simp add: xPixel_def pixel_index_def split: option.splits)
  moreover have "pixelHeight g = 0 \<Longrightarrow> yPixel lat g = None"
    by (simp add: yPixel_def pixel_index_def split: option.splits)
  ultimately have "\<not> in_bounds g (yPixel lat g) (xPixel lon g)"
    by (auto simp: in_bounds_def split: option.splits)
  then show "getClimate lat lon (Some g) = Inr \<lparr>climateCode = Null, climateType = ''Unknown''\<rparr>"
    by (simp add: getClimate_def getClimate_try_def unknown_climate_def Let_def)
qed

theorem getClimate_never_throws_witness:
  "getClimate 90 33 (Some boundary_grid) = Inr \<lparr>climateCode = Null, climateType = ''Unknown''\<rparr>
   \<and> xPixel 33 boundary_grid = Some 3329
   \<and> getClimate 91 double_32_78 (Some boundary_grid) = Inr \<lparr>climateCode = Null, climateType = ''Unknown''\<rparr>
   \<and> yPixel 91 boundary_grid = Some (- 1)
   \<and> getClimate 90 (- 180) (Some (boundary_grid\<lparr>pixelWidth := 0\<rparr>))
       = Inr \<lparr>climateCode = Null, climateType = ''Unknown''\<rparr>"
proof -
  have x: "xPixel 33 boundary_grid = Some 3329" by code_simp
  have y: "yPixel 91 boundary_grid = Some (- 1)" by code_simp
  have y0: "yPixel 90 boundary_grid = Some 0" by code_simp
  have x0: "xPixel double_32_78 boundary_grid = Some 3307" by code_simp
  have w: "width boundary_grid = 3308" "height boundary_grid = 1" by (simp_all add: boundary_grid_def)
  from getClimate_never_throws [of 90 33 None, THEN conjunct2, THEN conjunct2,
      THEN spec [of _ boundary_grid]] x y0 w
  have a: "getClimate 90 33 (Some boundary_grid) = Inr \<lparr>climateCode = Null, climateType = ''Unknown''\<rparr>"
    by simp
  from getClimate_never_throws [of 91 double_32_78 None, THEN conjunct2, THEN conjunct2,
      THEN spec [of _ boundary_grid]] x0 y w
  have b: "getClimate 91 double_32_78 (Some boundary_grid)
      = Inr \<lparr>climateCode = Null, climateType = ''Unknown''\<rparr>"
    by simp
  from getClimate_never_throws [of 90 "- 180" None, THEN conjunct2, THEN conjunct2,
      THEN spec [of _ "boundary_grid\<lparr>pixelWidth := 0\<rparr>"]]
  have c: "getClimate 90 (- 180) (Some (boundary_grid\<lparr>pixelWidth := 0\<rparr>))
       = Inr \<lparr>climateCode = Null, climateType = ''Unknown''\<rparr>"
    by simp
  from a b c x y show ?thesis by blast
qed

section \<open>Properties of the forecast tiers\<close>

lemma clamp_count_bounds: "1 \<le> clamp_count c \<and> clamp_count c \<le> 10"
  by (simp add: clamp_count_def)

lemma clamp_count_id: "1 \<le> c \<Longrightarrow> c \<le> 10 \<Longrightarrow> clamp_count c = c"
  by (simp add: clamp_count_def)

lemma length_slice0: "length (slice0 n xs) \<le> nat n"
  by (simp add: slice0_def)

lemma slice0_nonempty: "0 < n \<Longrightarrow> xs \<noteq> [] \<Longrightarrow> slice0 n xs \<noteq> []"
  by (cases xs) (auto simp: slice0_def take_Cons')

lemma daily_tier_None: "daily_tier outcome c = None \<longleftrightarrow> daily_nothing outcome"
  by (auto simp: daily_tier_def daily_nothing_def Let_def split: fetch_result.splits sum.splits)

lemma daily_tier_failed: "tier_failed outcome \<Longrightarrow> daily_tier outcome c = None"
  by (auto simp: daily_tier_def tier_failed_def Let_def split: fetch_result.splits sum.splits)

lemma daily_tier_Some:
  "daily_tier outcome c = Some ds \<Longrightarrow> ds \<noteq> [] \<and> length ds \<le> nat (clamp_count c)"
  using clamp_count_bounds [of c]
  by (auto simp: daily_tier_def Let_def length_slice0 slice0_nonempty
      split: fetch_result.splits sum.splits if_splits)

lemma daily_tier_ok:
  "outcome = Resolved r \<Longrightarrow> ok r \<Longrightarrow> json r = Inr d \<Longrightarrow> daily d = Some ds \<Longrightarrow> ds \<noteq> []
   \<Longrightarrow> daily_tier outcome c = Some (slice0 (clamp_count c) ds)"
  by (simp add: daily_tier_def array_or_empty_def)

lemma forecast_tier_Inr:
  "forecast_tier outcome c = Inr ds \<Longrightarrow> ds \<noteq> [] \<and> length ds \<le> nat (clamp_count c)"
  by (auto simp: forecast_tier_def Let_def synthesize_days_def length_slice0
      split: fetch_result.splits sum.splits if_splits)

text \<open>
  Claim C4. If the One Call 3.0 request resolves with a success status and a body
  whose \<open>daily\<close> array is non-empty and has at least \<open>count\<close> elements, for a
  \<open>count\<close> from 1 to 10, then \<open>getForecast10Days\<close> returns exactly the first
  \<open>count\<close> elements of that array, unmodified and in order, and the only request
  made is the One Call 3.0 request.
\<close>

theorem primary_tier_prefix:
  assumes "fetch (url_daily OneCall30 lat lon) = Resolved r" and "ok r" and "json r = Inr d"
    and "daily d = Some ds" and "ds \<noteq> []"
    and "1 \<le> count" and "count \<le> 10" and "count \<le> int (length ds)"
  shows "getForecast10Days fetch lat lon (Some count) =
           ([url_daily OneCall30 lat lon], Inr (map Daily (take (nat count) ds)))"
  using assms daily_tier_ok [OF assms(1-5), of count]
  by (simp add: getForecast10Days_def clamp_count_id slice0_def)

theorem primary_tier_prefix_witness:
  "getForecast10Days (network_onecall30 [11, 12, 13] []) 0 0 (Some 2) =
     ([url_daily OneCall30 0 0], Inr [Daily 11, Daily 12])"
  using primary_tier_prefix [of "network_onecall30 [11, 12, 13] []" 0 0
      "\<lparr>ok = True, json = Inr \<lparr>daily = Some [11, 12, 13], hourly = Some [], list = None\<rparr>\<rparr>"
      "\<lparr>daily = Some [11, 12, 13], hourly = Some [], list = None\<rparr>" "[11, 12, 13]" 2]
  by (simp add: network_onecall30_def url_daily_def ok_response_def)

lemma hourly_tier_None: "hourly_tier outcome = None \<longleftrightarrow> hourly_nothing outcome"
  by (auto simp: hourly_tier_def hourly_nothing_def Let_def array_or_empty_def slice0_def
      split: fetch_result.splits sum.splits option.splits)

lemma hourly_tier_Some: "hourly_tier outcome = Some hs \<Longrightarrow> hs \<noteq> [] \<and> length hs \<le> 24"
  by (auto simp: hourly_tier_def Let_def slice0_def
      split: fetch_result.splits sum.splits option.splits if_splits)

lemma hourly_fallback_Inr:
  "hourly_fallback outcome = Inr hs \<Longrightarrow> length hs \<le> 9"
  by (auto simp: hourly_fallback_def Let_def slice0_def
      split: fetch_result.splits sum.splits option.splits if_splits)

lemma hourly_fallback_ok:
  "outcome = Resolved r \<Longrightarrow> ok r \<Longrightarrow> json r = Inr d
   \<Longrightarrow> hourly_fallback outcome = Inr (map hour_of_sample (take 9 (array_or_empty (list d))))"
  by (auto simp: hourly_fallback_def Let_def slice0_def array_or_empty_def take_map split: option.splits)

lemma getForecast10Days_fallthrough:
  "daily_nothing (fetch (url_daily OneCall30 lat lon)) \<Longrightarrow> daily_nothing (fetch (url_daily OneCall25 lat lon))
   \<Longrightarrow> getForecast10Days fetch lat lon c =
        ([url_daily OneCall30 lat lon, url_daily OneCall25 lat lon, url_forecast lat lon],
         map_sum id (map Synthesized)
           (forecast_tier (fetch (url_forecast lat lon)) (case c of None \<Rightarrow> 10 | Some n \<Rightarrow> n)))"
proof -
  assume a: "daily_nothing (fetch (url_daily OneCall30 lat lon))"
    and b: "daily_nothing (fetch (url_daily OneCall25 lat lon))"
  have n1: "daily_tier (fetch (url_daily OneCall30 lat lon)) n = None" for n
    using a by (simp add: daily_tier_None)
  have n2: "daily_tier (fetch (url_daily OneCall25 lat lon)) n = None" for n
    using b by (simp add: daily_tier_None)
  show ?thesis by (simp add: getForecast10Days_def Let_def n1 n2)
qed

lemma getHourly24_fallthrough:
  "hourly_nothing (fetch (url_hourly OneCall30 lat lon)) \<Longrightarrow> hourly_nothing (fetch (url_hourly OneCall25 lat lon))
   \<Longrightarrow> getHourly24 fetch lat lon =
        ([url_hourly OneCall30 lat lon, url_hourly OneCall25 lat lon, url_forecast lat lon],
         hourly_fallback (fetch (url_forecast lat lon)))"
proof -
  assume a: "hourly_nothing (fetch (url_hourly OneCall30 lat lon))"
    and b: "hourly_nothing (fetch (url_hourly OneCall25 lat lon))"
  have n1: "hourly_tier (fetch (url_hourly OneCall30 lat lon)) = None"
    using a by (simp add: hourly_tier_None)
  have n2: "hourly_tier (fetch (url_hourly OneCall25 lat lon)) = None"
    using b by (simp add: hourly_tier_None)
  show ?thesis by (simp add: getHourly24_def Let_def n1 n2)
qed

lemma tier_failed_daily_nothing: "tier_failed outcome \<Longrightarrow> daily_nothing outcome"
  by (auto simp: tier_failed_def daily_nothing_def split: fetch_result.splits sum.splits)

text \<open>
  Claim C3 states that the failure raised when all three tiers fail is
  \<open>No forecast data available\<close>. With every request answered by a non-success
  status the failure raised is \<open>forecast 3h not available\<close>.
\<close>

theorem no_data_message_counterexample:
  "snd (getForecast10Days network_denied 0 0 (Some 2)) = Inl (Error ''forecast 3h not available'')
   \<and> snd (getForecast10Days network_denied 0 0 (Some 2)) \<noteq> Inl (Error ''No forecast data available'')"
  by (simp add: getForecast10Days_def network_denied_def denied_def daily_tier_def forecast_tier_def)

text \<open>
  Claim C3, as the code has it. \<open>getForecast10Days\<close> never returns an empty
  list. When both One Call tiers yield nothing, the call fails with the third
  tier's own failure: the error of a rejected fetch or of a failed parse, the error
  \<open>forecast 3h not available\<close> for a non-success status, and the error
  \<open>No forecast data available\<close> when the third tier responds successfully with no
  samples.
\<close>

theorem never_empty_on_success:
  "snd (getForecast10Days fetch lat lon c) \<noteq> Inr []
   \<and> (daily_nothing (fetch (url_daily OneCall30 lat lon)) \<and> daily_nothing (fetch (url_daily OneCall25 lat lon))
      \<longrightarrow> (\<forall>err. fetch (url_forecast lat lon) = Rejected err
                  \<longrightarrow> snd (getForecast10Days fetch lat lon c) = Inl err)
        \<and> (\<forall>r. fetch (url_forecast lat lon) = Resolved r \<and> \<not> ok r
                  \<longrightarrow> snd (getForecast10Days fetch lat lon c) = Inl (Error ''forecast 3h not available''))
        \<and> (\<forall>r err. fetch (url_forecast lat lon) = Resolved r \<and> ok r \<and> json r = Inl err
                  \<longrightarrow> snd (getForecast10Days fetch lat lon c) = Inl err)
        \<and> (\<forall>r d. fetch (url_forecast lat lon) = Resolved r \<and> ok r \<and> json r = Inr d
                     \<and> array_or_empty (list d) = []
                  \<longrightarrow> snd (getForecast10Days fetch lat lon c) = Inl (Error ''No forecast data available'')))"
proof (intro conjI impI)
  show "snd (getForecast10Days fetch lat lon c) \<noteq> Inr []"
    by (auto simp: getForecast10Days_def Let_def map_sum_def
        dest!: daily_tier_Some forecast_tier_Inr split: option.splits sum.splits)
next
  assume a: "daily_nothing (fetch (url_daily OneCall30 lat lon)) \<and> daily_nothing (fetch (url_daily OneCall25 lat lon))"
  note ft = getForecast10Days_fallthrough [OF a [THEN conjunct1] a [THEN conjunct2], of c]
  show "\<forall>err. fetch (url_forecast lat lon) = Rejected err
                  \<longrightarrow> snd (getForecast10Days fetch lat lon c) = Inl err"
    by (simp add: ft forecast_tier_def)
  show "\<forall>r. fetch (url_forecast lat lon) = Resolved r \<and> \<not> ok r
                  \<longrightarrow> snd (getForecast10Days fetch lat lon c) = Inl (Error ''forecast 3h not available'')"
    by (simp add: ft forecast_tier_def)
  show "\<forall>r err. fetch (url_forecast lat lon) = Resolved r \<and> ok r \<and> json r = Inl err
                  \<longrightarrow> snd (getForecast10Days fetch lat lon c) = Inl err"
    by (simp add: ft forecast_tier_def)
  show "\<forall>r d. fetch (url_forecast lat lon) = Resolved r \<and> ok r \<and> json r = Inr d
                     \<and> array_or_empty (list d) = []
                  \<longrightarrow> snd (getForecast10Days fetch lat lon c) = Inl (Error ''No forecast data available'')"
    by (simp add: ft forecast_tier_def synthesize_days_def slice0_def)
qed

theorem never_empty_on_success_witness:
  "snd (getForecast10Days (network_forecast_only []) 0 0 (Some 2)) = Inl (Error ''No forecast data available'')
   \<and> snd (getForecast10Days network_denied 0 0 (Some 2)) = Inl (Error ''forecast 3h not available'')
   \<and> snd (getForecast10Days network_unreachable 0 0 (Some 2)) = Inl (TypeError ''Failed to fetch'')"
  using never_empty_on_success [of "network_forecast_only []" 0 0 "Some 2"]
    never_empty_on_success [of network_denied 0 0 "Some 2"]
    never_empty_on_success [of network_unreachable 0 0 "Some 2"]
  by (simp add: network_forecast_only_def network_denied_def network_unreachable_def denied_def
      ok_response_def url_daily_def url_forecast_def daily_nothing_def array_or_empty_def)

text \<open>
  Claim C5. A rejected fetch, a non-success status or a failed parse at the first
  tier is swallowed: the second tier is requested next and, if it has data, its
  data is the result. The same failure at the second tier (the first having
  yielded nothing) leads to the third tier, whose outcome is the outcome of the
  call: there a rejected fetch, a non-success status and a failed parse propagate
  to the caller as the failure of the call.
\<close>

theorem tier_failures:
  "(tier_failed (fetch (url_daily OneCall30 lat lon))
      \<longrightarrow> take 2 (fst (getForecast10Days fetch lat lon c)) = [url_daily OneCall30 lat lon, url_daily OneCall25 lat lon]
        \<and> (\<forall>r d ds. fetch (url_daily OneCall25 lat lon) = Resolved r \<and> ok r \<and> json r = Inr d
                      \<and> daily d = Some ds \<and> ds \<noteq> []
              \<longrightarrow> getForecast10Days fetch lat lon c =
                    ([url_daily OneCall30 lat lon, url_daily OneCall25 lat lon],
                     Inr (map Daily (slice0 (clamp_count (case c of None \<Rightarrow> 10 | Some n \<Rightarrow> n)) ds)))))
   \<and> (daily_nothing (fetch (url_daily OneCall30 lat lon)) \<and> tier_failed (fetch (url_daily OneCall25 lat lon))
      \<longrightarrow> fst (getForecast10Days fetch lat lon c) =
            [url_daily OneCall30 lat lon, url_daily OneCall25 lat lon, url_forecast lat lon]
        \<and> snd (getForecast10Days fetch lat lon c) =
            map_sum id (map Synthesized)
              (forecast_tier (fetch (url_forecast lat lon)) (case c of None \<Rightarrow> 10 | Some n \<Rightarrow> n))
        \<and> (\<forall>err. fetch (url_forecast lat lon) = Rejected err
              \<longrightarrow> snd (getForecast10Days fetch lat lon c) = Inl err)
        \<and> (\<forall>r. fetch (url_forecast lat lon) = Resolved r \<and> \<not> ok r
              \<longrightarrow> snd (getForecast10Days fetch lat lon c) = Inl (Error ''forecast 3h not available''))
        \<and> (\<forall>r err. fetch (url_forecast lat lon) = Resolved r \<and> ok r \<and> json r = Inl err
              \<longrightarrow> snd (getForecast10Days fetch lat lon c) = Inl err))"
proof (intro conjI impI)
  assume f: "tier_failed (fetch (url_daily OneCall30 lat lon))"
  then have n: "daily_tier (fetch (url_daily OneCall30 lat lon)) (case c of None \<Rightarrow> 10 | Some n \<Rightarrow> n) = None"
    by (rule daily_tier_failed)
  show "take 2 (fst (getForecast10Days fetch lat lon c)) = [url_daily OneCall30 lat lon, url_daily OneCall25 lat lon]"
    using n by (simp add: getForecast10Days_def Let_def split: option.splits)
  show "\<forall>r d ds. fetch (url_daily OneCall25 lat lon) = Resolved r \<and> ok r \<and> json r = Inr d
                      \<and> daily d = Some ds \<and> ds \<noteq> []
              \<longrightarrow> getForecast10Days fetch lat lon c =
                    ([url_daily OneCall30 lat lon, url_daily OneCall25 lat lon],
                     Inr (map Daily (slice0 (clamp_count (case c of None \<Rightarrow> 10 | Some n \<Rightarrow> n)) ds)))"
    using n by (auto simp: getForecast10Days_def Let_def daily_tier_ok)
next
  assume a: "daily_nothing (fetch (url_daily OneCall30 lat lon)) \<and> tier_failed (fetch (url_daily OneCall25 lat lon))"
  then have b: "daily_nothing (fetch (url_daily OneCall25 lat lon))"
    by (simp add: tier_failed_daily_nothing)
  note ft = getForecast10Days_fallthrough [OF a [THEN conjunct1] b, of c]
  show "fst (getForecast10Days fetch lat lon c) =
            [url_daily OneCall30 lat lon, url_daily OneCall25 lat lon, url_forecast lat lon]"
    by (simp add: ft)
  show "snd (getForecast10Days fetch lat lon c) =
            map_sum id (map Synthesized)
              (forecast_tier (fetch (url_forecast lat lon)) (case c of None \<Rightarrow> 10 | Some n \<Rightarrow> n))"
    by (simp add: ft)
  show "\<forall>err. fetch (url_forecast lat lon) = Rejected err
              \<longrightarrow> snd (getForecast10Days fetch lat lon c) = Inl err"
    by (simp add: ft forecast_tier_def)
  show "\<forall>r. fetch (url_forecast lat lon) = Resolved r \<and> \<not> ok r
              \<longrightarrow> snd (getForecast10Days fetch lat lon c) = Inl (Error ''forecast 3h not available'')"
    by (simp add: ft forecast_tier_def)
  show "\<forall>r err. fetch (url_forecast lat lon) = Resolved r \<and> ok r \<and> json r = Inl err
              \<longrightarrow> snd (getForecast10Days fetch lat lon c) = Inl err"
    by (simp add: ft forecast_tier_def)
qed

theorem tier_failures_witness:
  "getForecast10Days (network_onecall25 [11, 12, 13]) 0 0 (Some 2) =
      ([url_daily OneCall30 0 0, url_daily OneCall25 0 0], Inr [Daily 11, Daily 12])
   \<and> getForecast10Days network_unreachable 0 0 (Some 2) =
      ([url_daily OneCall30 0 0, url_daily OneCall25 0 0, url_forecast 0 0], Inl (TypeError ''Failed to fetch''))
   \<and> snd (getForecast10Days network_denied 0 0 (Some 2)) = Inl (Error ''forecast 3h not available'')"
  using tier_failures [of "network_onecall25 [11, 12, 13]" 0 0 "Some 2"]
    tier_failures [of network_unreachable 0 0 "Some 2"]
    tier_failures [of network_denied 0 0 "Some 2"]
  by (simp add: network_onecall25_def network_unreachable_def network_denied_def denied_def
      ok_response_def url_daily_def url_forecast_def daily_nothing_def tier_failed_def
      clamp_count_def slice0_def prod_eq_iff forecast_tier_def)

text \<open>
  Claim C6 states that \<open>getHourly24\<close> fails rather than return an empty list
  when all three tiers yield nothing. With both One Call tiers refused and the
  5-day/3-hour endpoint answering with no samples, it returns the empty list.
\<close>

theorem hourly_empty_counterexample:
  "snd (getHourly24 (network_forecast_only []) 0 0) = Inr []"
  by (simp add: getHourly24_def hourly_tier_def hourly_fallback_def network_forecast_only_def
      url_hourly_def url_forecast_def denied_def ok_response_def slice0_def)

text \<open>
  Claim C6, as the code has it. When both One Call tiers of \<open>getHourly24\<close> yield
  nothing, the outcome is the third tier's: on a successful response the first
  nine samples converted, which is the empty list when there are no samples, and
  otherwise the third tier's own failure (the error of a rejected fetch or of a
  failed parse, \<open>forecast 3h not available\<close> for a non-success status).
\<close>

theorem hourly_failure_semantics:
  "hourly_nothing (fetch (url_hourly OneCall30 lat lon)) \<and> hourly_nothing (fetch (url_hourly OneCall25 lat lon))
   \<longrightarrow> (\<forall>r d. fetch (url_forecast lat lon) = Resolved r \<and> ok r \<and> json r = Inr d
            \<longrightarrow> snd (getHourly24 fetch lat lon) = Inr (map hour_of_sample (take 9 (array_or_empty (list d))))
              \<and> (array_or_empty (list d) = [] \<longrightarrow> snd (getHourly24 fetch lat lon) = Inr []))
     \<and> (\<forall>err. fetch (url_forecast lat lon) = Rejected err \<longrightarrow> snd (getHourly24 fetch lat lon) = Inl err)
     \<and> (\<forall>r. fetch (url_forecast lat lon) = Resolved r \<and> \<not> ok r
            \<longrightarrow> snd (getHourly24 fetch lat lon) = Inl (Error ''forecast 3h not available''))
     \<and> (\<forall>r err. fetch (url_forecast lat lon) = Resolved r \<and> ok r \<and> json r = Inl err
            \<longrightarrow> snd (getHourly24 fetch lat lon) = Inl err)"
proof (intro impI)
  assume a: "hourly_nothing (fetch (url_hourly OneCall30 lat lon)) \<and> hourly_nothing (fetch (url_hourly OneCall25 lat lon))"
  note ft = getHourly24_fallthrough [OF a [THEN conjunct1] a [THEN conjunct2]]
  show "(\<forall>r d. fetch (url_forecast lat lon) = Resolved r \<and> ok r \<and> json r = Inr d
            \<longrightarrow> snd (getHourly24 fetch lat lon) = Inr (map hour_of_sample (take 9 (array_or_empty (list d))))
              \<and> (array_or_empty (list d) = [] \<longrightarrow> snd (getHourly24 fetch lat lon) = Inr []))
     \<and> (\<forall>err. fetch (url_forecast lat lon) = Rejected err \<longrightarrow> snd (getHourly24 fetch lat lon) = Inl err)
     \<and> (\<forall>r. fetch (url_forecast lat lon) = Resolved r \<and> \<not> ok r
            \<longrightarrow> snd (getHourly24 fetch lat lon) = Inl (Error ''forecast 3h not available''))
     \<and> (\<forall>r err. fetch (url_forecast lat lon) = Resolved r \<and> ok r \<and> json r = Inl err
            \<longrightarrow> snd (getHourly24 fetch lat lon) = Inl err)"
    by (auto simp: ft hourly_fallback_ok) (simp_all add: hourly_fallback_def)
qed

theorem hourly_failure_semantics_witness:
  "snd (getHourly24 (network_forecast_only []) 0 0) = Inr []
   \<and> snd (getHourly24 network_denied 0 0) = Inl (Error ''forecast 3h not available'')
   \<and> snd (getHourly24 network_unreachable 0 0) = Inl (TypeError ''Failed to fetch'')"
  using hourly_failure_semantics [of "network_forecast_only []" 0 0]
    hourly_failure_semantics [of network_denied 0 0]
    hourly_failure_semantics [of network_unreachable 0 0]
  by (simp add: network_forecast_only_def network_denied_def network_unreachable_def denied_def
      ok_response_def url_hourly_def url_forecast_def hourly_nothing_def array_or_empty_def)

text \<open>
  Claim C7. For every network \<open>getHourly24\<close> returns at most 24 entries. In the
  third-tier fallback the result is the first nine samples at most, each converted
  on its own by \<open>hour_of_sample\<close>, with no grouping by day.
\<close>

theorem hourly_at_most_24:
  "(\<forall>hours. snd (getHourly24 fetch lat lon) = Inr hours \<longrightarrow> length hours \<le> 24)
   \<and> (hourly_nothing (fetch (url_hourly OneCall30 lat lon)) \<and> hourly_nothing (fetch (url_hourly OneCall25 lat lon))
      \<longrightarrow> (\<forall>r d. fetch (url_forecast lat lon) = Resolved r \<and> ok r \<and> json r = Inr d
             \<longrightarrow> snd (getHourly24 fetch lat lon) = Inr (map hour_of_sample (take 9 (array_or_empty (list d))))
               \<and> length (projr (snd (getHourly24 fetch lat lon))) = min 9 (length (array_or_empty (list d)))))"
proof (intro conjI allI impI)
  fix hours assume "snd (getHourly24 fetch lat lon) = Inr hours"
  then show "length hours \<le> 24"
    by (auto simp: getHourly24_def Let_def dest!: hourly_tier_Some hourly_fallback_Inr
        split: option.splits)
next
  fix r d
  assume a: "hourly_nothing (fetch (url_hourly OneCall30 lat lon)) \<and> hourly_nothing (fetch (url_hourly OneCall25 lat lon))"
    and b: "fetch (url_forecast lat lon) = Resolved r \<and> ok r \<and> json r = Inr d"
  note ft = getHourly24_fallthrough [OF a [THEN conjunct1] a [THEN conjunct2]]
  from b show "snd (getHourly24 fetch lat lon) = Inr (map hour_of_sample (take 9 (array_or_empty (list d))))"
    by (simp add: ft hourly_fallback_ok)
  from b show "length (projr (snd (getHourly24 fetch lat lon))) = min 9 (length (array_or_empty (list d)))"
    by (simp add: ft hourly_fallback_ok min.commute)
qed

theorem hourly_at_most_24_witness:
  "snd (getHourly24 (network_onecall30 [] (replicate 30 \<lparr>h_dt = Some 0, h_temp = Some 1, h_weather = []\<rparr>)) 0 0)
     = Inr (replicate 24 \<lparr>hour_dt = Some 0, hour_temp = Some 1, hour_icon = ''01d'', hour_description = []\<rparr>)
   \<and> snd (getHourly24 (network_forecast_only (replicate 10 \<lparr>dt = Some 0, main = None, weather = []\<rparr>)) 0 0)
     = Inr (replicate 9 \<lparr>hour_dt = Some 0, hour_temp = Some 0, hour_icon = ''01d'', hour_description = []\<rparr>)
   \<and> length (replicate 24 \<lparr>hour_dt = Some 0, hour_temp = Some 1, hour_icon = ''01d'', hour_description = []\<rparr>) \<le> 24"
proof -
  have a: "snd (getHourly24 (network_onecall30 [] (replicate 30 \<lparr>h_dt = Some 0, h_temp = Some 1, h_weather = []\<rparr>)) 0 0)
     = Inr (replicate 24 \<lparr>hour_dt = Some 0, hour_temp = Some 1, hour_icon = ''01d'', hour_description = []\<rparr>)"
    by (simp add: getHourly24_def hourly_tier_def network_onecall30_def url_hourly_def ok_response_def
        slice0_def hour_of_raw_def first_icon_def first_description_def or_default_def)
  have n: "hourly_nothing (network_forecast_only xs (url_hourly OneCall30 0 0))
      \<and> hourly_nothing (network_forecast_only xs (url_hourly OneCall25 0 0))" for xs
    by (simp add: network_forecast_only_def url_hourly_def hourly_nothing_def denied_def)
  have f: "network_forecast_only xs (url_forecast 0 0)
      = Resolved \<lparr>ok = True, json = Inr \<lparr>daily = None, hourly = None, list = Some xs\<rparr>\<rparr>
      \<and> ok \<lparr>ok = True, json = Inr \<lparr>daily = None, hourly = None, list = Some xs\<rparr>\<rparr>
      \<and> json \<lparr>ok = True, json = Inr \<lparr>daily = None, hourly = None, list = Some xs\<rparr>\<rparr>
          = Inr \<lparr>daily = (None :: nat list option), hourly = None, list = Some xs\<rparr>" for xs
    by (simp add: network_forecast_only_def url_forecast_def ok_response_def)
  note t = hourly_at_most_24 [of "network_forecast_only (replicate 10 \<lparr>dt = Some 0, main = None, weather = []\<rparr>)" 0 0]
  from t [THEN conjunct2, THEN mp, OF n, THEN spec, THEN spec, THEN mp, OF f]
  have b: "snd (getHourly24 (network_forecast_only (replicate 10 \<lparr>dt = Some 0, main = None, weather = []\<rparr>)) 0 0)
     = Inr (replicate 9 \<lparr>hour_dt = Some 0, hour_temp = Some 0, hour_icon = ''01d'', hour_description = []\<rparr>)"
    by (simp add: array_or_empty_def hour_of_sample_def first_icon_def first_description_def or_default_def)
  from hourly_at_most_24 [THEN conjunct1, THEN spec, THEN mp, OF a]
  show ?thesis using a b by simp
qed

section \<open>The loop of the third tier builds the day buckets\<close>

lemma group_by_day_append:
  "group_by_day b (xs @ ys) =
     (case group_by_day b xs of Inl err \<Rightarrow> Inl err | Inr b' \<Rightarrow> group_by_day b' ys)"
  by (induction xs arbitrary: b) (auto split: sum.splits)

lemma set_first_keys: "set (first_keys xs) = sample_key ` set xs"
  by (simp add: first_keys_def)

lemma distinct_first_keys: "distinct (first_keys xs)"
  by (simp add: first_keys_def)

lemma first_keys_snoc:
  "first_keys (xs @ [x]) =
     (if sample_key x \<in> sample_key ` set xs then first_keys xs else first_keys xs @ [sample_key x])"
  by (simp add: first_keys_def)

lemma bucket_snoc:
  "bucket k (xs @ [x]) = (if sample_key x = k then bucket k xs @ [x] else bucket k xs)"
  by (simp add: bucket_def)

lemma bucket_nonempty: "k \<in> sample_key ` set xs \<Longrightarrow> bucket k xs \<noteq> []"
  by (auto simp: bucket_def filter_empty_conv)

lemma bucket_empty: "k \<notin> sample_key ` set xs \<Longrightarrow> bucket k xs = []"
  by (auto simp: bucket_def filter_empty_conv)

lemma map_of_tabulate:
  "map_of (map (\<lambda>k. (k, f k)) ks) k = (if k \<in> set ks then Some (f k) else None)"
  by (induction ks) auto

lemma update_tabulate:
  "distinct ks \<Longrightarrow> AList.update k v (map (\<lambda>k. (k, f k)) ks) =
     (if k \<in> set ks then map (\<lambda>k'. (k', if k' = k then v else f k')) ks
      else map (\<lambda>k. (k, f k)) ks @ [(k, v)])"
  by (induction ks) auto

lemma pushed_temps_snoc:
  "pushed_temps (b @ [x]) = pushed_temps b @ (case main x of None \<Rightarrow> [] | Some m \<Rightarrow> [temp m])"
  by (simp add: pushed_temps_def List.map_filter_def split: option.splits)

lemma counts_snoc: "counts (ks @ [k]) = bump k (counts ks)"
  by (simp add: counts_def)

lemma count_key_counts: "count_key s (counts ks) = counts (ks @ truthy s)"
  by (simp add: count_key_def truthy_def counts_def split: option.splits)

lemma sample_icons_snoc: "sample_icons (b @ [x]) = sample_icons b @ truthy (first_icon (weather x))"
  by (simp add: sample_icons_def)

lemma sample_descriptions_snoc:
  "sample_descriptions (b @ [x]) = sample_descriptions b @ truthy (first_description (weather x))"
  by (simp add: sample_descriptions_def)

text \<open>The record after one more sample of the same bucket, and the record of a new bucket.\<close>

lemma rec_of_snoc:
  assumes "b \<noteq> []"
  shows "rec_of (b @ [x]) =
    (let rec0 = rec_of b;
         rec1 = (case main x of Some m \<Rightarrow> rec0\<lparr>temps := temps rec0 @ [temp m]\<rparr> | None \<Rightarrow> rec0);
         rec2 = rec1\<lparr>icons := count_key (first_icon (weather x)) (icons rec1)\<rparr>
     in rec2\<lparr>descs := count_key (first_description (weather x)) (descs rec2)\<rparr>)"
  using assms
  by (simp add: rec_of_def Let_def pushed_temps_snoc sample_icons_snoc sample_descriptions_snoc
      count_key_counts split: option.splits)

lemma rec_of_single:
  "rec_of [x] =
    (let rec0 = \<lparr>temps = [], icons = [], descs = [], rec_dt = sample_ts x div 1000\<rparr>;
         rec1 = (case main x of Some m \<Rightarrow> rec0\<lparr>temps := temps rec0 @ [temp m]\<rparr> | None \<Rightarrow> rec0);
         rec2 = rec1\<lparr>icons := count_key (first_icon (weather x)) (icons rec1)\<rparr>
     in rec2\<lparr>descs := count_key (first_description (weather x)) (descs rec2)\<rparr>)"
proof -
  have c: "count_key s [] = counts (truthy s)" for s
    using count_key_counts [of s "[]"] by (simp add: counts_def)
  show ?thesis
    by (simp add: rec_of_def Let_def pushed_temps_def List.map_filter_def sample_icons_def
        sample_descriptions_def c split: option.splits)
qed

lemma add_sample_grouped:
  assumes "valid_time x"
  shows "add_sample (grouped xs) x = Inr (grouped (xs @ [x]))"
proof -
  let ?k = "sample_key x"
  have key: "dayKey (sample_ts x) = Inr ?k"
    using assms by (simp add: dayKey_def valid_time_def sample_key_def)
  show ?thesis
  proof (cases "?k \<in> sample_key ` set xs")
    case True
    then have ne: "bucket ?k xs \<noteq> []" by (rule bucket_nonempty)
    have look: "map_of (grouped xs) ?k = Some (rec_of (bucket ?k xs))"
      using True by (simp add: grouped_def map_of_tabulate set_first_keys)
    have "grouped (xs @ [x]) =
        map (\<lambda>k'. (k', if k' = ?k then rec_of (bucket ?k xs @ [x]) else rec_of (bucket k' xs))) (first_keys xs)"
      using True by (auto simp: grouped_def first_keys_snoc bucket_snoc)
    also have "\<dots> = AList.update ?k (rec_of (bucket ?k xs @ [x])) (grouped xs)"
      using True by (simp add: grouped_def update_tabulate distinct_first_keys set_first_keys)
    finally show ?thesis
      by (simp add: add_sample_def key look rec_of_snoc [OF ne] Let_def)
  next
    case False
    have look: "map_of (grouped xs) ?k = None"
      using False by (simp add: grouped_def map_of_tabulate set_first_keys)
    have "grouped (xs @ [x]) =
        map (\<lambda>k. (k, rec_of (bucket k xs))) (first_keys xs) @ [(?k, rec_of [x])]"
      using False by (auto simp: grouped_def first_keys_snoc bucket_snoc bucket_empty set_first_keys)
    also have "\<dots> = AList.update ?k (rec_of [x]) (grouped xs)"
      using False by (simp add: grouped_def update_tabulate distinct_first_keys set_first_keys)
    finally show ?thesis
      by (simp add: add_sample_def key look rec_of_single Let_def)
  qed
qed

lemma group_by_day_grouped:
  "list_all valid_time xs \<Longrightarrow> group_by_day [] xs = Inr (grouped xs)"
proof (induction xs rule: rev_induct)
  case Nil
  show ?case by (simp add: grouped_def first_keys_def)
next
  case (snoc x xs)
  then show ?case by (simp add: group_by_day_append add_sample_grouped)
qed

lemma group_by_day_invalid:
  "\<not> list_all valid_time xs \<Longrightarrow> group_by_day b xs = Inl (RangeError ''Invalid time value'')"
proof (induction xs arbitrary: b)
  case Nil
  then show ?case by simp
next
  case (Cons x xs)
  show ?case
  proof (cases "valid_time x")
    case True
    with Cons show ?thesis
      by (auto simp: add_sample_def Let_def dayKey_def valid_time_def split: sum.splits)
  next
    case False
    then show ?thesis
      by (simp add: add_sample_def Let_def dayKey_def valid_time_def)
  qed
qed

section \<open>Counting objects and the summary of a bucket\<close>

lemma map_of_bump:
  "map_of (bump k obj) k' =
     (if k' = k then Some ((case map_of obj k of None \<Rightarrow> 0 | Some c \<Rightarrow> c) + 1) else map_of obj k')"
  by (simp add: bump_def update_conv')

lemma distinct_bump: "distinct (map fst obj) \<Longrightarrow> distinct (map fst (bump k obj))"
  by (simp add: bump_def distinct_update)

lemma distinct_counts: "distinct (map fst (counts ks))"
  by (induction ks rule: rev_induct) (simp_all add: counts_snoc distinct_bump, simp add: counts_def)

lemma map_of_counts:
  "map_of (counts ks) k = (if k \<in> set ks then Some (count_list ks k) else None)"
proof (induction ks rule: rev_induct)
  case Nil
  show ?case by (simp add: counts_def)
next
  case (snoc x xs)
  then show ?case by (auto simp: counts_snoc map_of_bump)
qed

lemma counts_entry:
  "(k, c) \<in> set (counts ks) \<longleftrightarrow> k \<in> set ks \<and> c = count_list ks k"
proof -
  have "(k, c) \<in> set (counts ks) \<longleftrightarrow> map_of (counts ks) k = Some c"
    using distinct_counts [of ks] by simp
  then show ?thesis by (auto simp: map_of_counts)
qed

lemma counts_empty_iff: "counts ks = [] \<longleftrightarrow> ks = []"
proof
  assume "counts ks = []"
  then have "map_of (counts ks) (hd ks) = None" by simp
  then show "ks = []" by (cases ks) (simp_all add: map_of_counts)
qed (simp add: counts_def)

lemma sort_key_head:
  assumes "sort_key f xs = e # rest"
  shows "e \<in> set xs \<and> (\<forall>x\<in>set xs. f e \<le> f x)"
proof -
  have s: "sorted (map f (e # rest))" using sorted_sort_key [of f xs] assms by simp
  have m: "set (e # rest) = set xs" using set_sort [of f xs] assms by simp
  from s have "\<forall>x\<in>set rest. f e \<le> f x" by simp
  with m show ?thesis by auto
qed

lemma top_key_counts_empty: "top_key (counts []) = None"
  by (simp add: top_key_def counts_def)

lemma top_key_counts:
  assumes "ks \<noteq> []"
  shows "\<exists>s. top_key (counts ks) = Some s \<and> is_mode s ks"
proof -
  let ?f = "\<lambda>e :: string \<times> nat. - int (snd e)"
  have "sort_key ?f (counts ks) \<noteq> []"
    using assms counts_empty_iff [of ks] length_sort [of ?f "counts ks"]
    by (metis length_0_conv)
  then obtain e rest where L: "sort_key ?f (counts ks) = e # rest"
    by (cases "sort_key ?f (counts ks)") auto
  from sort_key_head [OF L] have e: "e \<in> set (counts ks)"
    and least: "\<forall>x\<in>set (counts ks). snd x \<le> snd e" by auto
  from e have ek: "fst e \<in> set ks" and ec: "snd e = count_list ks (fst e)"
    using counts_entry [of "fst e" "snd e" ks] by auto
  have "count_list ks k \<le> count_list ks (fst e)" if "k \<in> set ks" for k
  proof -
    from that have "(k, count_list ks k) \<in> set (counts ks)" by (simp add: counts_entry)
    with least ec show ?thesis by fastforce
  qed
  then have "is_mode (fst e) ks" using ek by (simp add: is_mode_def list_all_iff)
  moreover have "top_key (counts ks) = Some (fst e)" by (simp add: top_key_def L)
  ultimately show ?thesis by blast
qed

lemma is_mode_nonempty: "is_mode s ks \<Longrightarrow> s \<noteq> [] \<or> [] \<in> set ks"
  by (auto simp: is_mode_def)

lemma truthy_nonempty: "s \<in> set (truthy v) \<Longrightarrow> s \<noteq> []"
  by (auto simp: truthy_def split: option.splits if_splits)

lemma sample_icons_nonempty: "s \<in> set (sample_icons b) \<Longrightarrow> s \<noteq> []"
  by (auto simp: sample_icons_def dest: truthy_nonempty)

lemma sample_descriptions_nonempty: "s \<in> set (sample_descriptions b) \<Longrightarrow> s \<noteq> []"
  by (auto simp: sample_descriptions_def dest: truthy_nonempty)

text \<open>\<open>Math.min\<close> and \<open>Math.max\<close> by the elements pushed.\<close>

lemma foldl_js_min_NaN: "foldl js_min NaN vs = NaN"
  by (induction vs) (simp_all add: js_min_def)

lemma foldl_js_max_NaN: "foldl js_max NaN vs = NaN"
  by (induction vs) (simp_all add: js_max_def)

lemma foldl_js_min_Finite:
  "foldl js_min (Finite a) (map to_number (map Some ts)) = Finite (Min (insert a (set ts)))"
proof (induction ts arbitrary: a)
  case Nil
  show ?case by simp
next
  case (Cons t ts)
  have "js_min (Finite a) (to_number (Some t)) = Finite (min a t)"
    by (simp add: js_min_def to_number_def min_def)
  moreover have "Min (insert (min a t) (set ts)) = Min (insert a (insert t (set ts)))"
    by (cases "set ts = {}") (simp_all add: Min_insert min.assoc)
  ultimately show ?case using Cons.IH [of "min a t"] by simp
qed

lemma foldl_js_max_Finite:
  "foldl js_max (Finite a) (map to_number (map Some ts)) = Finite (Max (insert a (set ts)))"
proof (induction ts arbitrary: a)
  case Nil
  show ?case by simp
next
  case (Cons t ts)
  have "js_max (Finite a) (to_number (Some t)) = Finite (max a t)"
    by (simp add: js_max_def to_number_def max_def)
  moreover have "Max (insert (max a t) (set ts)) = Max (insert a (insert t (set ts)))"
    by (cases "set ts = {}") (simp_all add: Max_insert max.assoc)
  ultimately show ?case using Cons.IH [of "max a t"] by simp
qed

lemma Math_min_Nil: "Math_min [] = Infinity"
  by (simp add: Math_min_def)

lemma Math_max_Nil: "Math_max [] = MinusInfinity"
  by (simp add: Math_max_def)

lemma Math_min_numbers: "ts \<noteq> [] \<Longrightarrow> Math_min (map Some ts) = Finite (Min (set ts))"
proof (cases ts)
  case (Cons t rest)
  have "js_min Infinity (to_number (Some t)) = Finite t" by (simp add: js_min_def to_number_def)
  then show ?thesis using foldl_js_min_Finite [of t rest] by (simp add: Math_min_def Cons)
qed simp

lemma Math_max_numbers: "ts \<noteq> [] \<Longrightarrow> Math_max (map Some ts) = Finite (Max (set ts))"
proof (cases ts)
  case (Cons t rest)
  have "js_max MinusInfinity (to_number (Some t)) = Finite t" by (simp add: js_max_def to_number_def)
  then show ?thesis using foldl_js_max_Finite [of t rest] by (simp add: Math_max_def Cons)
qed simp

lemma Math_min_undefined: "None \<in> set ps \<Longrightarrow> Math_min ps = NaN"
proof -
  assume "None \<in> set ps"
  then obtain us vs where ps: "ps = us @ None # vs" by (auto simp: in_set_conv_decomp)
  have "js_min a (to_number None) = NaN" for a by (simp add: js_min_def to_number_def)
  then show ?thesis by (simp add: Math_min_def ps foldl_js_min_NaN)
qed

lemma Math_max_undefined: "None \<in> set ps \<Longrightarrow> Math_max ps = NaN"
proof -
  assume "None \<in> set ps"
  then obtain us vs where ps: "ps = us @ None # vs" by (auto simp: in_set_conv_decomp)
  have "js_max a (to_number None) = NaN" for a by (simp add: js_max_def to_number_def)
  then show ?thesis by (simp add: Math_max_def ps foldl_js_max_NaN)
qed

lemma pushed_all_numbers:
  "\<not> missing_temp b \<Longrightarrow> pushed_temps b = map Some (sample_temps b)"
proof -
  assume "\<not> missing_temp b"
  then have "None \<notin> set (pushed_temps b)" by (simp add: missing_temp_def list_ex_iff)
  moreover have "None \<notin> set ps \<Longrightarrow> ps = map Some (List.map_filter (\<lambda>t. t) ps)"
    for ps :: "rat option list"
  proof (induction ps)
    case Nil
    show ?case by (simp add: List.map_filter_def)
  next
    case (Cons a ps)
    then show ?case by (cases a) (simp_all add: List.map_filter_def)
  qed
  ultimately show ?thesis by (simp add: sample_temps_def)
qed

lemma Math_min_bucket:
  "Math_min (pushed_temps b) =
     (if missing_temp b then NaN
      else if sample_temps b = [] then Infinity else Finite (Min (set (sample_temps b))))"
proof (cases "missing_temp b")
  case True
  then have "None \<in> set (pushed_temps b)" by (auto simp: missing_temp_def list_ex_iff)
  then show ?thesis using True by (simp add: Math_min_undefined)
next
  case False
  then show ?thesis
    by (simp add: pushed_all_numbers Math_min_numbers Math_min_Nil)
qed

lemma Math_max_bucket:
  "Math_max (pushed_temps b) =
     (if missing_temp b then NaN
      else if sample_temps b = [] then MinusInfinity else Finite (Max (set (sample_temps b))))"
proof (cases "missing_temp b")
  case True
  then have "None \<in> set (pushed_temps b)" by (auto simp: missing_temp_def list_ex_iff)
  then show ?thesis using True by (simp add: Math_max_undefined)
next
  case False
  then show ?thesis
    by (simp add: pushed_all_numbers Math_max_numbers Math_max_Nil)
qed

lemma summarizes_rec_of: "summarizes b (summarize (rec_of b))"
proof -
  define I where "I = or_default (top_key (counts (sample_icons b))) ''01d''"
  define D where "D = or_default (top_key (counts (sample_descriptions b))) []"
  have i: "if sample_icons b = [] then I = ''01d'' else is_mode I (sample_icons b)"
  proof (cases "sample_icons b = []")
    case True
    then show ?thesis by (simp add: I_def top_key_counts_empty or_default_def)
  next
    case False
    from top_key_counts [OF False] obtain s where
      s: "top_key (counts (sample_icons b)) = Some s" "is_mode s (sample_icons b)" by blast
    then have "s \<noteq> []" using sample_icons_nonempty [of s b] by (auto simp: is_mode_def)
    with s False show ?thesis by (simp add: I_def or_default_def)
  qed
  have d: "if sample_descriptions b = [] then D = [] else is_mode D (sample_descriptions b)"
  proof (cases "sample_descriptions b = []")
    case True
    then show ?thesis by (simp add: D_def top_key_counts_empty or_default_def)
  next
    case False
    from top_key_counts [OF False] obtain s where
      s: "top_key (counts (sample_descriptions b)) = Some s" "is_mode s (sample_descriptions b)" by blast
    then have "s \<noteq> []" using sample_descriptions_nonempty [of s b] by (auto simp: is_mode_def)
    with s False show ?thesis by (simp add: D_def or_default_def)
  qed
  have e: "summarize (rec_of b) =
      \<lparr>day_dt = sample_ts (hd b) div 1000,
       temp_min = Math_round (Math_min (pushed_temps b)),
       temp_max = Math_round (Math_max (pushed_temps b)),
       day_weather = [\<lparr>icon = Some I, description = Some D\<rparr>]\<rparr>"
    by (simp add: summarize_def rec_of_def I_def D_def)
  show ?thesis
    unfolding e summarizes_def using i d by (simp add: Math_min_bucket Math_max_bucket)
qed

section \<open>Sorting by key and the result of the third tier\<close>

lemma insort_key_tabulate:
  "insort_key fst (k, f k) (map (\<lambda>k. (k, f k)) ks) = map (\<lambda>k. (k, f k)) (insort k ks)"
  by (induction ks) auto

lemma sort_key_tabulate:
  "sort_key fst (map (\<lambda>k. (k, f k)) ks) = map (\<lambda>k. (k, f k)) (sort ks)"
  by (induction ks) (simp_all add: insort_key_tabulate)

lemma sort_first_keys: "sort (first_keys xs) = day_keys xs"
  by (rule sorted_distinct_set_unique) (simp_all add: day_keys_def first_keys_def)

lemma set_day_keys: "set (day_keys xs) = sample_key ` set xs"
  by (simp add: day_keys_def)

lemma day_keys_nonempty: "xs \<noteq> [] \<Longrightarrow> day_keys xs \<noteq> []"
  using set_day_keys [of xs] by (cases xs) auto

lemma synthesize_grouped:
  "synthesize_days c (grouped xs) =
     map (\<lambda>k. summarize (rec_of (bucket k xs))) (take (nat (clamp_count c)) (day_keys xs))"
  by (simp add: synthesize_days_def grouped_def sort_key_tabulate sort_first_keys slice0_def
      take_map comp_def)

lemma forecast_tier_samples:
  assumes "outcome = Resolved r" and "ok r" and "json r = Inr d"
    and "array_or_empty (list d) = xs" and "xs \<noteq> []" and "list_all valid_time xs"
  shows "forecast_tier outcome c =
     Inr (map (\<lambda>k. summarize (rec_of (bucket k xs))) (take (nat (clamp_count c)) (day_keys xs)))"
proof -
  have "0 < nat (clamp_count c)" by (simp add: clamp_count_def)
  then have "take (nat (clamp_count c)) (day_keys xs) \<noteq> []"
    using day_keys_nonempty [OF assms(5)] by (cases "day_keys xs") (auto simp: take_Cons')
  then show ?thesis
    using assms by (simp add: forecast_tier_def group_by_day_grouped synthesize_grouped)
qed

lemma list_all2_summarizes:
  "list_all2 (\<lambda>k e. summarizes (bucket k xs) e) ks (map (\<lambda>k. summarize (rec_of (bucket k xs))) ks)"
  by (simp add: list_all2_map2 list_all2_same summarizes_rec_of)

section \<open>Day keys follow the calendar\<close>

lemma days_in_month_bounds: "28 \<le> days_in_month y m \<and> days_in_month y m \<le> 31"
  by (simp add: days_in_month_def)

lemma days_in_month_pos: "1 \<le> days_in_month y m"
  using days_in_month_bounds [of y m] by linarith

lemma days_in_december: "days_in_month y 12 = 31"
  by (simp add: days_in_month_def)

lemma next_day_valid: "valid_date ymd \<Longrightarrow> valid_date (next_day ymd)"
proof -
  assume v: "valid_date ymd"
  obtain y m d where ymd: "ymd = (y, m, d)" by (cases ymd)
  with v have b: "1 \<le> m" "m \<le> 12" "1 \<le> d" "d \<le> days_in_month y m"
    by (simp_all add: valid_date_def)
  show ?thesis
    unfolding ymd using b days_in_month_pos [of y "m + 1"] days_in_month_pos [of "y + 1" 1]
    by (simp add: valid_date_def)
qed

lemma next_day_greater: "valid_date ymd \<Longrightarrow> ymd < next_day ymd"
proof -
  assume v: "valid_date ymd"
  obtain y m d where ymd: "ymd = (y, m, d)" by (cases ymd)
  show ?thesis unfolding ymd by simp
qed

lemma prev_day_valid: "valid_date ymd \<Longrightarrow> valid_date (prev_day ymd)"
proof -
  assume v: "valid_date ymd"
  obtain y m d where ymd: "ymd = (y, m, d)" by (cases ymd)
  with v have b: "1 \<le> m" "m \<le> 12" "1 \<le> d" "d \<le> days_in_month y m"
    by (simp_all add: valid_date_def)
  consider "1 < d" | "d = 1" "1 < m" | "d = 1" "m = 1" using b by linarith
  then show ?thesis
  proof cases
    case 1
    then show ?thesis unfolding ymd using b by (auto simp: valid_date_def)
  next
    case 2
    have "prev_day (y, m, d) = (y, m - 1, days_in_month y (m - 1))" using 2 by simp
    then show ?thesis
      unfolding ymd using 2 b days_in_month_pos [of y "m - 1"] by (auto simp: valid_date_def)
  next
    case 3
    have "prev_day (y, m, d) = (y - 1, 12, 31)" using 3 by simp
    then show ?thesis
      unfolding ymd using days_in_december [of "y - 1"] by (simp add: valid_date_def)
  qed
qed

lemma prev_day_less: "valid_date ymd \<Longrightarrow> prev_day ymd < ymd"
proof -
  assume v: "valid_date ymd"
  obtain y m d where ymd: "ymd = (y, m, d)" by (cases ymd)
  with v have b: "1 \<le> m" "1 \<le> d" by (simp_all add: valid_date_def)
  show ?thesis unfolding ymd using b by simp
qed

lemma epoch_valid: "valid_date epoch"
  by (simp add: epoch_def valid_date_def days_in_month_def)

lemma forward_valid: "valid_date ((next_day ^^ n) epoch)"
  by (induction n) (simp_all add: epoch_valid next_day_valid)

lemma backward_valid: "valid_date ((prev_day ^^ n) epoch)"
  by (induction n) (simp_all add: epoch_valid prev_day_valid)

lemma forward_mono: "i \<le> j \<Longrightarrow> (next_day ^^ i) epoch \<le> (next_day ^^ j) epoch"
proof (induction j)
  case 0
  then show ?case by simp
next
  case (Suc j)
  show ?case
  proof (cases "i = Suc j")
    case True
    then show ?thesis by simp
  next
    case False
    with Suc have "(next_day ^^ i) epoch \<le> (next_day ^^ j) epoch" by simp
    also have "\<dots> < (next_day ^^ Suc j) epoch"
      using next_day_greater [OF forward_valid [of j]] by simp
    finally show ?thesis by simp
  qed
qed

lemma backward_mono: "i \<le> j \<Longrightarrow> (prev_day ^^ j) epoch \<le> (prev_day ^^ i) epoch"
proof (induction j)
  case 0
  then show ?case by simp
next
  case (Suc j)
  show ?case
  proof (cases "i = Suc j")
    case True
    then show ?thesis by simp
  next
    case False
    have "(prev_day ^^ Suc j) epoch < (prev_day ^^ j) epoch"
      using prev_day_less [OF backward_valid [of j]] by simp
    also have "\<dots> \<le> (prev_day ^^ i) epoch" using Suc False by simp
    finally show ?thesis by simp
  qed
qed

lemma forward_strict: "i < j \<Longrightarrow> (next_day ^^ i) epoch < (next_day ^^ j) epoch"
proof -
  assume "i < j"
  then obtain j' where j: "j = Suc j'" and le: "i \<le> j'" by (cases j) auto
  have "(next_day ^^ i) epoch \<le> (next_day ^^ j') epoch" using le by (rule forward_mono)
  also have "\<dots> < (next_day ^^ Suc j') epoch"
    using next_day_greater [OF forward_valid [of j']] by simp
  finally show ?thesis unfolding j .
qed

lemma backward_strict: "i < j \<Longrightarrow> (prev_day ^^ j) epoch < (prev_day ^^ i) epoch"
proof -
  assume "i < j"
  then obtain j' where j: "j = Suc j'" and le: "i \<le> j'" by (cases j) auto
  have "(prev_day ^^ Suc j') epoch < (prev_day ^^ j') epoch"
    using prev_day_less [OF backward_valid [of j']] by simp
  also have "\<dots> \<le> (prev_day ^^ i) epoch" using le by (rule backward_mono)
  finally show ?thesis unfolding j .
qed

lemma civil_from_days_valid: "valid_date (civil_from_days z)"
  by (simp add: civil_from_days_def forward_valid backward_valid)

lemma civil_from_days_mono:
  assumes "z1 \<le> z2"
  shows "civil_from_days z1 \<le> civil_from_days z2"
proof -
  consider "0 \<le> z1" | "z2 < 0" | "z1 < 0" "0 \<le> z2" using assms by linarith
  then show ?thesis
  proof cases
    case 1
    with assms show ?thesis by (simp add: civil_from_days_def forward_mono)
  next
    case 2
    with assms show ?thesis by (simp add: civil_from_days_def backward_mono)
  next
    case 3
    have "civil_from_days z1 \<le> epoch"
      using 3 backward_mono [of 0 "nat (- z1)"] by (simp add: civil_from_days_def)
    also have "\<dots> \<le> civil_from_days z2"
      using 3 forward_mono [of 0 "nat z2"] by (simp add: civil_from_days_def)
    finally show ?thesis .
  qed
qed

lemma civil_from_days_strict:
  assumes "z1 < z2"
  shows "civil_from_days z1 < civil_from_days z2"
proof -
  consider "0 \<le> z1" | "z2 < 0" | "z1 < 0" "0 \<le> z2" using assms by linarith
  then show ?thesis
  proof cases
    case 1
    with assms show ?thesis by (simp add: civil_from_days_def forward_strict)
  next
    case 2
    with assms show ?thesis by (simp add: civil_from_days_def backward_strict)
  next
    case 3
    have "civil_from_days z1 < epoch"
      using 3 backward_strict [of 0 "nat (- z1)"] by (simp add: civil_from_days_def)
    also have "\<dots> \<le> civil_from_days z2"
      using 3 forward_mono [of 0 "nat z2"] by (simp add: civil_from_days_def)
    finally show ?thesis .
  qed
qed

text \<open>Zero-padded decimals of equal width compare as the numbers do.\<close>

lemma append_less_same_length:
  "length xs = length ys \<Longrightarrow> xs @ u < ys @ v \<longleftrightarrow> xs < ys \<or> (xs = ys \<and> u < v)"
  for xs ys :: string
  by (induction xs ys rule: list_induct2) auto

lemma append_less_same_prefix: "xs @ u < xs @ v \<longleftrightarrow> u < v"
  for xs :: string
  using append_less_same_length [of xs xs u v] by simp

lemma length_pad: "length (pad k n) = k"
  by (induction k arbitrary: n) simp_all

lemma digit_char_code: "d < 10 \<Longrightarrow> of_char (digit_char d) = (48 + d :: nat)"
proof -
  assume "d < 10"
  then have "d \<in> {0, 1, 2, 3, 4, 5, 6, 7, 8, 9}" by auto
  then show ?thesis by (auto simp: digit_char_def)
qed

lemma digit_char_less: "a < 10 \<Longrightarrow> b < 10 \<Longrightarrow> digit_char a < digit_char b \<longleftrightarrow> a < b"
  by (simp add: less_char_def digit_char_code)

lemma div_mod_less:
  assumes "(a::int) < b"
  shows "a div 10 < b div 10 \<or> (a div 10 = b div 10 \<and> a mod 10 < b mod 10)"
proof (cases "a div 10 = b div 10")
  case True
  have a: "a = 10 * (a div 10) + a mod 10" and b: "b = 10 * (b div 10) + b mod 10" by simp_all
  have "10 * (b div 10) + a mod 10 < 10 * (b div 10) + b mod 10"
    using assms True a b by metis
  then have "a mod 10 < b mod 10" by (simp only: add_less_cancel_left)
  with True show ?thesis by simp
next
  case False
  moreover have "a div 10 \<le> b div 10" using assms by (simp add: zdiv_mono1)
  ultimately show ?thesis by simp
qed

lemma pad_less: "0 \<le> a \<Longrightarrow> a < b \<Longrightarrow> b < 10 ^ k \<Longrightarrow> pad k a < pad k b"
proof (induction k arbitrary: a b)
  case 0
  then show ?case by simp
next
  case (Suc k)
  have len: "length (pad k (a div 10)) = length (pad k (b div 10))" by (simp add: length_pad)
  have "10 * (b div 10) + b mod 10 = b" by simp
  moreover have "0 \<le> b mod 10" by simp
  ultimately have "10 * (b div 10) \<le> b" by (metis add.commute le_add_same_cancel2)
  then have "10 * (b div 10) < 10 * 10 ^ k" using Suc.prems(3) by simp
  then have b10: "b div 10 < 10 ^ k" by simp
  have a10: "0 \<le> a div 10" using Suc.prems(1) by simp
  from div_mod_less [OF Suc.prems(2)] consider
    "a div 10 < b div 10" | "a div 10 = b div 10" "a mod 10 < b mod 10"
    by blast
  then show ?case
  proof cases
    case 1
    then have "pad k (a div 10) < pad k (b div 10)" using Suc.IH a10 b10 by simp
    then show ?thesis by (simp add: append_less_same_length [OF len])
  next
    case 2
    have "nat (a mod 10) < 10" "nat (b mod 10) < 10" by simp_all
    moreover have "nat (a mod 10) < nat (b mod 10)" using 2 by simp
    ultimately show ?thesis using 2 by (simp add: digit_char_less append_less_same_prefix)
  qed
qed

lemma iso_date_four_digit:
  "0 \<le> y \<Longrightarrow> y \<le> 9999 \<Longrightarrow>
   iso_date (y, m, d) = pad 4 y @ ''-'' @ pad 2 (int m) @ ''-'' @ pad 2 (int d)"
  by (simp add: iso_date_def year_string_def)

lemma length_iso_date_four_digit: "0 \<le> y \<Longrightarrow> y \<le> 9999 \<Longrightarrow> length (iso_date (y, m, d)) = 10"
  by (simp add: iso_date_four_digit length_pad)

lemma iso_date_less:
  assumes "valid_date (y1, m1, d1)" and "valid_date (y2, m2, d2)"
    and "0 \<le> y1" and "y1 \<le> 9999" and "0 \<le> y2" and "y2 \<le> 9999"
    and "(y1, m1, d1) < (y2, m2, d2)"
  shows "iso_date (y1, m1, d1) < iso_date (y2, m2, d2)"
proof -
  have bm: "int m2 < 10 ^ 2" using assms(2) by (auto simp: valid_date_def)
  have bd: "int d2 < 10 ^ 2"
    using assms(2) days_in_month_bounds [of y2 m2] by (auto simp: valid_date_def)
  have y2b: "y2 < 10 ^ 4" using assms(6) by simp
  have l4: "length (pad 4 y1) = length (pad 4 y2)" by (simp add: length_pad)
  have l2: "length (pad 2 (int m1)) = length (pad 2 (int m2))" by (simp add: length_pad)
  have "y1 < y2 \<or> (y1 = y2 \<and> m1 < m2) \<or> (y1 = y2 \<and> m1 = m2 \<and> d1 < d2)"
    using assms(7) by simp linarith
  then consider "y1 < y2" | "y1 = y2" "m1 < m2" | "y1 = y2" "m1 = m2" "d1 < d2"
    by blast
  then have "pad 4 y1 @ ''-'' @ pad 2 (int m1) @ ''-'' @ pad 2 (int d1)
      < pad 4 y2 @ ''-'' @ pad 2 (int m2) @ ''-'' @ pad 2 (int d2)"
  proof cases
    case 1
    then have "pad 4 y1 < pad 4 y2" using assms(3) y2b by (intro pad_less) simp_all
    then show ?thesis by (simp add: append_less_same_length [OF l4])
  next
    case 2
    then have "pad 2 (int m1) < pad 2 (int m2)" using bm by (intro pad_less) simp_all
    then show ?thesis using 2 by (simp add: append_less_same_length [OF l2] append_less_same_prefix)
  next
    case 3
    then have "pad 2 (int d1) < pad 2 (int d2)" using bd by (intro pad_less) simp_all
    with 3 show ?thesis by (simp add: append_less_same_prefix)
  qed
  then show ?thesis using assms(3-6) by (simp add: iso_date_four_digit)
qed

lemma date_key_four_digit:
  assumes "four_digit_year item"
  shows "sample_key item = iso_date (civil_from_days (sample_ts item div 86400000))"
  using assms
  by (cases "civil_from_days (sample_ts item div 86400000)")
    (simp add: four_digit_year_def sample_key_def date_key_def length_iso_date_four_digit)

text \<open>For four-digit years the keys order the samples as their timestamps do.\<close>

lemma sample_key_mono:
  assumes "four_digit_year a" and "four_digit_year b" and "sample_ts a \<le> sample_ts b"
  shows "sample_key a \<le> sample_key b"
proof -
  let ?ca = "civil_from_days (sample_ts a div 86400000)"
  let ?cb = "civil_from_days (sample_ts b div 86400000)"
  have le: "?ca \<le> ?cb" using assms(3) by (intro civil_from_days_mono zdiv_mono1) simp_all
  obtain y1 m1 d1 where a: "?ca = (y1, m1, d1)" by (cases ?ca)
  obtain y2 m2 d2 where b: "?cb = (y2, m2, d2)" by (cases ?cb)
  have va: "valid_date (y1, m1, d1)" using civil_from_days_valid [of "sample_ts a div 86400000"] a by simp
  have vb: "valid_date (y2, m2, d2)" using civil_from_days_valid [of "sample_ts b div 86400000"] b by simp
  have ya: "0 \<le> y1" "y1 \<le> 9999" using assms(1) a by (simp_all add: four_digit_year_def)
  have yb: "0 \<le> y2" "y2 \<le> 9999" using assms(2) b by (simp_all add: four_digit_year_def)
  show ?thesis
  proof (cases "?ca = ?cb")
    case True
    then show ?thesis using assms(1,2) by (simp add: date_key_four_digit)
  next
    case False
    with le have "?ca < ?cb" by (rule le_neq_trans)
    then have "(y1, m1, d1) < (y2, m2, d2)" unfolding a b .
    from iso_date_less [OF va vb ya yb this] show ?thesis
      using assms(1,2) a b by (simp add: date_key_four_digit)
  qed
qed

lemma sample_key_less_imp_ts_less:
  assumes "four_digit_year a" and "four_digit_year b" and "sample_key a < sample_key b"
  shows "sample_ts a < sample_ts b"
proof (rule ccontr)
  assume "\<not> sample_ts a < sample_ts b"
  then have "sample_ts b \<le> sample_ts a" by simp
  from sample_key_mono [OF assms(2,1) this] assms(3) show False by simp
qed

text \<open>For four-digit years two samples have the same key exactly when they fall on the same UTC day.\<close>

lemma sample_key_day_less:
  assumes "four_digit_year a" and "four_digit_year b"
    and "sample_ts a div 86400000 < sample_ts b div 86400000"
  shows "sample_key a < sample_key b"
proof -
  let ?ca = "civil_from_days (sample_ts a div 86400000)"
  let ?cb = "civil_from_days (sample_ts b div 86400000)"
  have lt: "?ca < ?cb" using assms(3) by (rule civil_from_days_strict)
  obtain y1 m1 d1 where a: "?ca = (y1, m1, d1)" by (cases ?ca)
  obtain y2 m2 d2 where b: "?cb = (y2, m2, d2)" by (cases ?cb)
  have va: "valid_date (y1, m1, d1)" using civil_from_days_valid [of "sample_ts a div 86400000"] a by simp
  have vb: "valid_date (y2, m2, d2)" using civil_from_days_valid [of "sample_ts b div 86400000"] b by simp
  have ya: "0 \<le> y1" "y1 \<le> 9999" using assms(1) a by (simp_all add: four_digit_year_def)
  have yb: "0 \<le> y2" "y2 \<le> 9999" using assms(2) b by (simp_all add: four_digit_year_def)
  from lt have "(y1, m1, d1) < (y2, m2, d2)" unfolding a b .
  from iso_date_less [OF va vb ya yb this] show ?thesis
    using assms(1,2) a b by (simp add: date_key_four_digit)
qed

lemma sample_key_same_day:
  assumes "four_digit_year a" and "four_digit_year b"
  shows "sample_key a = sample_key b \<longleftrightarrow> sample_ts a div 86400000 = sample_ts b div 86400000"
proof
  assume "sample_ts a div 86400000 = sample_ts b div 86400000"
  then show "sample_key a = sample_key b" by (simp add: sample_key_def date_key_def)
next
  assume eq: "sample_key a = sample_key b"
  show "sample_ts a div 86400000 = sample_ts b div 86400000"
  proof (rule ccontr)
    assume "sample_ts a div 86400000 \<noteq> sample_ts b div 86400000"
    then consider "sample_ts a div 86400000 < sample_ts b div 86400000"
      | "sample_ts b div 86400000 < sample_ts a div 86400000" by linarith
    then show False
    proof cases
      case 1
      from sample_key_day_less [OF assms(1,2) 1] eq show False by simp
    next
      case 2
      from sample_key_day_less [OF assms(2,1) 2] eq show False by simp
    qed
  qed
qed

section \<open>Properties of the synthesized entries\<close>

lemma sample_ts_div: "sample_ts item div 1000 = (case dt item of None \<Rightarrow> 0 | Some d \<Rightarrow> d)"
  by (simp add: sample_ts_def)

lemma hd_bucket:
  assumes "k \<in> sample_key ` set xs"
  shows "hd (bucket k xs) \<in> set xs \<and> sample_key (hd (bucket k xs)) = k"
proof -
  have "bucket k xs \<noteq> []" using assms by (rule bucket_nonempty)
  then have "hd (bucket k xs) \<in> set (bucket k xs)" by simp
  then show ?thesis by (simp add: bucket_def)
qed

lemma strict_sorted_day_keys: "sorted_wrt (<) (day_keys xs)"
  by (simp add: day_keys_def strict_sorted_iff)

lemma day_dt_summarize: "day_dt (summarize (rec_of b)) = sample_ts (hd b) div 1000"
  by (simp add: summarize_def rec_of_def)

text \<open>With four-digit years the synthesized entries are in chronological order.\<close>

lemma chronological:
  assumes "list_all four_digit_year xs"
  shows "sorted_wrt (<) (map (\<lambda>k. day_dt (summarize (rec_of (bucket k xs)))) (take n (day_keys xs)))"
proof -
  have step: "sample_ts (hd (bucket k1 xs)) div 1000 < sample_ts (hd (bucket k2 xs)) div 1000"
    if "k1 \<in> set (day_keys xs)" and "k2 \<in> set (day_keys xs)" and "k1 < k2" for k1 k2
  proof -
    let ?a = "hd (bucket k1 xs)" and ?b = "hd (bucket k2 xs)"
    from that(1,2) have a: "?a \<in> set xs" "sample_key ?a = k1" and b: "?b \<in> set xs" "sample_key ?b = k2"
      using hd_bucket [of k1 xs] hd_bucket [of k2 xs] by (simp_all add: set_day_keys)
    have fa: "four_digit_year ?a" and fb: "four_digit_year ?b"
      using assms a(1) b(1) by (simp_all add: list_all_iff)
    have "sample_ts ?a < sample_ts ?b"
      using sample_key_less_imp_ts_less [OF fa fb] a(2) b(2) that(3) by simp
    then show ?thesis by (simp add: sample_ts_def)
  qed
  have "sorted_wrt (<) (take n (day_keys xs))"
    using strict_sorted_day_keys [of xs] by (rule sorted_wrt_take)
  then have "sorted_wrt (\<lambda>k1 k2. sample_ts (hd (bucket k1 xs)) div 1000 < sample_ts (hd (bucket k2 xs)) div 1000)
      (take n (day_keys xs))"
    by (rule sorted_wrt_mono_rel [rotated]) (auto intro: step dest: in_set_takeD)
  then show ?thesis by (simp add: sorted_wrt_map day_dt_summarize)
qed

lemma third_tier_result:
  assumes "daily_nothing (fetch (url_daily OneCall30 lat lon))"
    and "daily_nothing (fetch (url_daily OneCall25 lat lon))"
    and "fetch (url_forecast lat lon) = Resolved r" and "ok r" and "json r = Inr d"
    and "list d = Some xs" and "xs \<noteq> []" and "list_all valid_time xs"
  shows "getForecast10Days fetch lat lon (Some count) =
    ([url_daily OneCall30 lat lon, url_daily OneCall25 lat lon, url_forecast lat lon],
     Inr (map Synthesized (map (\<lambda>k. summarize (rec_of (bucket k xs)))
            (take (nat (clamp_count count)) (day_keys xs)))))"
proof -
  have n1: "daily_tier (fetch (url_daily OneCall30 lat lon)) n = None" for n
    using assms(1) by (auto simp: daily_tier_def daily_nothing_def Let_def split: fetch_result.splits sum.splits)
  have n2: "daily_tier (fetch (url_daily OneCall25 lat lon)) n = None" for n
    using assms(2) by (auto simp: daily_tier_def daily_nothing_def Let_def split: fetch_result.splits sum.splits)
  have a: "array_or_empty (list d) = xs" using assms(6) by (simp add: array_or_empty_def)
  show ?thesis
    by (simp add: getForecast10Days_def Let_def n1 n2
        forecast_tier_samples [OF assms(3,4,5) a assms(7,8)])
qed

lemma summarizes_min_le_max:
  assumes "summarizes b e" and "sample_temps b \<noteq> []" and "\<not> missing_temp b"
  shows "js_le (temp_min e) (temp_max e)"
proof -
  have "Min (set (sample_temps b)) \<le> Max (set (sample_temps b))"
    using assms(2) by (simp add: Min_le_iff)
  then have "\<lfloor>Min (set (sample_temps b)) + 1 / 2\<rfloor> \<le> \<lfloor>Max (set (sample_temps b)) + 1 / 2\<rfloor>"
    by (intro floor_mono) simp
  then show ?thesis using assms by (simp add: summarizes_def)
qed


lemma summarizes_weather:
  assumes "summarizes b e"
  shows "\<exists>i d. day_weather e = [\<lparr>icon = Some i, description = Some d\<rparr>]
    \<and> (sample_icons b \<noteq> [] \<longrightarrow> is_mode i (sample_icons b))
    \<and> (sample_descriptions b \<noteq> [] \<longrightarrow> is_mode d (sample_descriptions b))"
proof -
  from assms obtain w where w: "day_weather e = [w]"
    by (auto simp: summarizes_def split: list.splits)
  from assms w obtain i d where id: "icon w = Some i" "description w = Some d"
    by (auto simp: summarizes_def split: option.splits)
  then have "w = \<lparr>icon = Some i, description = Some d\<rparr>" by (cases w) simp
  moreover from assms w id have "sample_icons b \<noteq> [] \<longrightarrow> is_mode i (sample_icons b)"
    and "sample_descriptions b \<noteq> [] \<longrightarrow> is_mode d (sample_descriptions b)"
    by (auto simp: summarizes_def)
  ultimately show ?thesis using w by blast
qed


lemma in_pushed_temps:
  "v \<in> set (pushed_temps b) \<longleftrightarrow> (\<exists>item\<in>set b. \<exists>m. main item = Some m \<and> temp m = v)"
  by (induction b) (auto simp: pushed_temps_def List.map_filter_def)

lemma missing_temp_iff:
  "missing_temp b \<longleftrightarrow> (\<exists>item\<in>set b. \<exists>m. main item = Some m \<and> temp m = None)"
proof -
  have "missing_temp b \<longleftrightarrow> None \<in> set (pushed_temps b)"
    by (auto simp: missing_temp_def list_ex_iff)
  then show ?thesis by (simp only: in_pushed_temps)
qed

lemma sample_temps_nonempty_iff:
  "sample_temps b \<noteq> [] \<longleftrightarrow> (\<exists>item\<in>set b. \<exists>m t. main item = Some m \<and> temp m = Some t)"
proof -
  have "List.map_filter (\<lambda>t. t) ps \<noteq> [] \<longleftrightarrow> (\<exists>t. Some t \<in> set ps)" for ps :: "rat option list"
    by (induction ps) (auto simp: List.map_filter_def)
  then have "sample_temps b \<noteq> [] \<longleftrightarrow> (\<exists>t. Some t \<in> set (pushed_temps b))"
    by (simp add: sample_temps_def)
  then show ?thesis by (simp only: in_pushed_temps) blast
qed

text \<open>
  The bounds compare exactly when the bucket has a sample with \<^verbatim>\<open>main\<close> and every
  \<^verbatim>\<open>main\<close> in it has a numeric \<^verbatim>\<open>temp\<close>.
\<close>

lemma temps_comparable_iff:
  "sample_temps b \<noteq> [] \<and> \<not> missing_temp b \<longleftrightarrow>
     (\<exists>item\<in>set b. main item \<noteq> None)
     \<and> (\<forall>item\<in>set b. \<forall>m. main item = Some m \<longrightarrow> temp m \<noteq> None)"
  unfolding sample_temps_nonempty_iff missing_temp_iff by (auto; fastforce)

lemma sample_icons_empty_iff:
  "sample_icons b = [] \<longleftrightarrow> (\<forall>item\<in>set b. truthy (first_icon (weather item)) = [])"
  by (simp add: sample_icons_def)

lemma sample_descriptions_empty_iff:
  "sample_descriptions b = [] \<longleftrightarrow> (\<forall>item\<in>set b. truthy (first_description (weather item)) = [])"
  by (simp add: sample_descriptions_def)

lemma bucket_has_data:
  assumes "list_all has_data xs" and "k \<in> set (day_keys xs)"
  shows "sample_temps (bucket k xs) \<noteq> [] \<and> \<not> missing_temp (bucket k xs)
    \<and> sample_icons (bucket k xs) \<noteq> [] \<and> sample_descriptions (bucket k xs) \<noteq> []"
proof -
  from assms(2) have "hd (bucket k xs) \<in> set (bucket k xs)"
    using bucket_nonempty [of k xs] by (simp add: set_day_keys)
  moreover have "\<forall>item\<in>set (bucket k xs). has_data item"
    using assms(1) by (simp add: bucket_def list_all_iff)
  ultimately have "hd (bucket k xs) \<in> set (bucket k xs)"
    and all: "\<forall>item\<in>set (bucket k xs). has_data item" by blast+
  then have t: "sample_temps (bucket k xs) \<noteq> [] \<and> \<not> missing_temp (bucket k xs)"
    unfolding temps_comparable_iff by (auto simp: has_data_def split: option.splits)
  from \<open>hd (bucket k xs) \<in> set (bucket k xs)\<close> all
  have "sample_icons (bucket k xs) \<noteq> [] \<and> sample_descriptions (bucket k xs) \<noteq> []"
    by (auto simp: sample_icons_empty_iff sample_descriptions_empty_iff has_data_def)
  with t show ?thesis by blast
qed





text \<open>
  Claim C1. When both One Call tiers yield nothing and the 5-day/3-hour endpoint
  answers with samples whose timestamps are valid, \<open>getForecast10Days\<close> returns
  one entry for each of the first \<open>min 10 (max 1 count)\<close> day keys, the keys being
  the distinct UTC date portions of the sample timestamps in ascending order. The
  entry of a key summarizes the samples with that key: its \<open>temp.min\<close> and
  \<open>temp.max\<close> are the rounded least and greatest temperature among them
  (\<^verbatim>\<open>Infinity\<close> and \<^verbatim>\<open>-Infinity\<close> when none of them has \<^verbatim>\<open>main\<close>, \<^verbatim>\<open>NaN\<close> when a
  \<^verbatim>\<open>main\<close> among them has no numeric \<^verbatim>\<open>temp\<close>), and its icon and description are
  a most frequent icon and a most frequent description among them. With
  four-digit years two samples have the same key exactly when their timestamps
  fall on the same UTC day, and the entries are in chronological order. In
  particular, for a \<open>count\<close> of 2 and samples that span exactly two calendar days
  and all carry a temperature, an icon and a description (such as 16 three-hour
  samples), the result has exactly two entries, in chronological order, each with
  \<open>min \<le> max\<close> and with a most frequent icon and description of its day.
\<close>

theorem third_tier_buckets:
  assumes "daily_nothing (fetch (url_daily OneCall30 lat lon))"
    and "daily_nothing (fetch (url_daily OneCall25 lat lon))"
    and "fetch (url_forecast lat lon) = Resolved r" and "ok r" and "json r = Inr d"
    and "list d = Some xs" and "xs \<noteq> []"
    and "list_all valid_time xs" and "list_all plain_sample xs"
  shows "\<exists>days. snd (getForecast10Days fetch lat lon (Some count)) = Inr (map Synthesized days)
    \<and> list_all2 (\<lambda>k e. summarizes (bucket k xs) e)
         (take (nat (min 10 (max 1 count))) (day_keys xs)) days
    \<and> sorted (day_keys xs) \<and> distinct (day_keys xs) \<and> set (day_keys xs) = sample_key ` set xs
    \<and> (list_all four_digit_year xs \<longrightarrow>
          (\<forall>a\<in>set xs. \<forall>b\<in>set xs.
             sample_key a = sample_key b \<longleftrightarrow> sample_ts a div 86400000 = sample_ts b div 86400000))
    \<and> (list_all four_digit_year xs \<longrightarrow> sorted_wrt (<) (map day_dt days))
    \<and> (count = 2 \<and> length (day_keys xs) = 2 \<and> list_all four_digit_year xs \<and> list_all has_data xs
        \<longrightarrow> (\<exists>e1 e2 i1 d1 i2 d2. days = [e1, e2] \<and> day_dt e1 < day_dt e2
              \<and> js_le (temp_min e1) (temp_max e1) \<and> js_le (temp_min e2) (temp_max e2)
              \<and> day_weather e1 = [\<lparr>icon = Some i1, description = Some d1\<rparr>]
              \<and> is_mode i1 (sample_icons (bucket (day_keys xs ! 0) xs))
              \<and> is_mode d1 (sample_descriptions (bucket (day_keys xs ! 0) xs))
              \<and> day_weather e2 = [\<lparr>icon = Some i2, description = Some d2\<rparr>]
              \<and> is_mode i2 (sample_icons (bucket (day_keys xs ! 1) xs))
              \<and> is_mode d2 (sample_descriptions (bucket (day_keys xs ! 1) xs))))"
proof -
  let ?n = "nat (min 10 (max 1 count))"
  let ?ks = "take ?n (day_keys xs)"
  let ?days = "map (\<lambda>k. summarize (rec_of (bucket k xs))) ?ks"
  have res: "snd (getForecast10Days fetch lat lon (Some count)) = Inr (map Synthesized ?days)"
    using third_tier_result [OF assms(1-8), of count] by (simp add: clamp_count_def)
  have all2: "list_all2 (\<lambda>k e. summarizes (bucket k xs) e) ?ks ?days"
    by (rule list_all2_summarizes)
  have keys: "sorted (day_keys xs) \<and> distinct (day_keys xs) \<and> set (day_keys xs) = sample_key ` set xs"
    by (simp add: day_keys_def)
  have same: "list_all four_digit_year xs \<longrightarrow>
          (\<forall>a\<in>set xs. \<forall>b\<in>set xs.
             sample_key a = sample_key b \<longleftrightarrow> sample_ts a div 86400000 = sample_ts b div 86400000)"
    by (auto simp: list_all_iff sample_key_same_day)
  have chron: "list_all four_digit_year xs \<longrightarrow> sorted_wrt (<) (map day_dt ?days)"
    using chronological [of xs ?n] by (simp add: comp_def)
  have scen: "\<exists>e1 e2 i1 d1 i2 d2. ?days = [e1, e2] \<and> day_dt e1 < day_dt e2
              \<and> js_le (temp_min e1) (temp_max e1) \<and> js_le (temp_min e2) (temp_max e2)
              \<and> day_weather e1 = [\<lparr>icon = Some i1, description = Some d1\<rparr>]
              \<and> is_mode i1 (sample_icons (bucket (day_keys xs ! 0) xs))
              \<and> is_mode d1 (sample_descriptions (bucket (day_keys xs ! 0) xs))
              \<and> day_weather e2 = [\<lparr>icon = Some i2, description = Some d2\<rparr>]
              \<and> is_mode i2 (sample_icons (bucket (day_keys xs ! 1) xs))
              \<and> is_mode d2 (sample_descriptions (bucket (day_keys xs ! 1) xs))"
    if s: "count = 2 \<and> length (day_keys xs) = 2 \<and> list_all four_digit_year xs \<and> list_all has_data xs"
  proof -
    from s obtain k1 k2 where ks: "day_keys xs = [k1, k2]"
      by (cases "day_keys xs"; cases "tl (day_keys xs)") auto
    let ?e1 = "summarize (rec_of (bucket k1 xs))" and ?e2 = "summarize (rec_of (bucket k2 xs))"
    have d: "?days = [?e1, ?e2]" using s ks by simp
    have s1: "summarizes (bucket k1 xs) ?e1" and s2: "summarizes (bucket k2 xs) ?e2"
      by (rule summarizes_rec_of)+
    have b1: "sample_temps (bucket k1 xs) \<noteq> [] \<and> \<not> missing_temp (bucket k1 xs)
        \<and> sample_icons (bucket k1 xs) \<noteq> [] \<and> sample_descriptions (bucket k1 xs) \<noteq> []"
      using s ks by (intro bucket_has_data) simp_all
    have b2: "sample_temps (bucket k2 xs) \<noteq> [] \<and> \<not> missing_temp (bucket k2 xs)
        \<and> sample_icons (bucket k2 xs) \<noteq> [] \<and> sample_descriptions (bucket k2 xs) \<noteq> []"
      using s ks by (intro bucket_has_data) simp_all
    from chron s have "sorted_wrt (<) (map day_dt ?days)" by blast
    then have "sorted_wrt (<) (map day_dt [?e1, ?e2])" by (simp only: d)
    then have lt: "day_dt ?e1 < day_dt ?e2" by simp
    from summarizes_weather [OF s1] b1 obtain i1 d1 where
      w1: "day_weather ?e1 = [\<lparr>icon = Some i1, description = Some d1\<rparr>]"
        "is_mode i1 (sample_icons (bucket k1 xs))" "is_mode d1 (sample_descriptions (bucket k1 xs))"
      by blast
    from summarizes_weather [OF s2] b2 obtain i2 d2 where
      w2: "day_weather ?e2 = [\<lparr>icon = Some i2, description = Some d2\<rparr>]"
        "is_mode i2 (sample_icons (bucket k2 xs))" "is_mode d2 (sample_descriptions (bucket k2 xs))"
      by blast
    have m1: "js_le (temp_min ?e1) (temp_max ?e1)" using s1 b1 by (simp add: summarizes_min_le_max)
    have m2: "js_le (temp_min ?e2) (temp_max ?e2)" using s2 b2 by (simp add: summarizes_min_le_max)
    show ?thesis
      unfolding d using lt m1 m2 w1 w2 by (simp add: ks)
  qed
  show ?thesis
    using res all2 keys same chron scen by (intro exI [of _ ?days]) blast
qed

theorem third_tier_buckets_witness:
  "snd (getForecast10Days (network_forecast_only two_day_samples) 0 0 (Some 2)) =
     Inr [Synthesized \<lparr>day_dt = 0, temp_min = Finite 9, temp_max = Finite 16,
            day_weather = [\<lparr>icon = Some ''01n'', description = Some ''clear sky''\<rparr>]\<rparr>,
          Synthesized \<lparr>day_dt = 86400, temp_min = Finite (- 2), temp_max = Finite 2,
            day_weather = [\<lparr>icon = Some ''13n'', description = Some ''overcast clouds''\<rparr>]\<rparr>]
   \<and> length two_day_samples = 16
   \<and> day_keys two_day_samples = [''1970-01-01'', ''1970-01-02'']
   \<and> is_mode ''01n'' (sample_icons (bucket ''1970-01-01'' two_day_samples))
   \<and> is_mode ''clear sky'' (sample_descriptions (bucket ''1970-01-01'' two_day_samples))
   \<and> is_mode ''13n'' (sample_icons (bucket ''1970-01-02'' two_day_samples))
   \<and> is_mode ''overcast clouds'' (sample_descriptions (bucket ''1970-01-02'' two_day_samples))"
proof -
  let ?xs = "two_day_samples"
  let ?d = "\<lparr>daily = None :: nat list option, hourly = None, list = Some ?xs\<rparr>"
  let ?r = "\<lparr>ok = True, json = Inr ?d\<rparr>"
  have h1: "daily_nothing (network_forecast_only ?xs (url_daily OneCall30 0 0))"
    by (simp add: network_forecast_only_def url_daily_def denied_def daily_nothing_def)
  have h2: "daily_nothing (network_forecast_only ?xs (url_daily OneCall25 0 0))"
    by (simp add: network_forecast_only_def url_daily_def denied_def daily_nothing_def)
  have h3: "network_forecast_only ?xs (url_forecast 0 0) = Resolved ?r"
    by (simp add: network_forecast_only_def url_forecast_def ok_response_def)
  have h4: "ok ?r" and h5: "json ?r = Inr ?d" and h6: "list ?d = Some ?xs" by simp_all
  have h7: "?xs \<noteq> []" by (simp add: two_day_samples_def)
  have h8: "list_all valid_time ?xs" by code_simp
  have h9: "list_all plain_sample ?xs" by code_simp
  have len: "length ?xs = 16" by (simp add: two_day_samples_def)
  have ks: "day_keys ?xs = [''1970-01-01'', ''1970-01-02'']" by code_simp
  have fd: "list_all four_digit_year ?xs" by code_simp
  have hd: "list_all has_data ?xs" by code_simp
  have eval: "snd (getForecast10Days (network_forecast_only ?xs) 0 0 (Some 2)) =
     Inr [Synthesized \<lparr>day_dt = 0, temp_min = Finite 9, temp_max = Finite 16,
            day_weather = [\<lparr>icon = Some ''01n'', description = Some ''clear sky''\<rparr>]\<rparr>,
          Synthesized \<lparr>day_dt = 86400, temp_min = Finite (- 2), temp_max = Finite 2,
            day_weather = [\<lparr>icon = Some ''13n'', description = Some ''overcast clouds''\<rparr>]\<rparr>]"
    by code_simp
  have s: "2 = (2::int) \<and> length (day_keys ?xs) = 2 \<and> list_all four_digit_year ?xs \<and> list_all has_data ?xs"
    using ks fd hd by simp
  from third_tier_buckets [OF h1 h2 h3 h4 h5 h6 h7 h8 h9, of 2]
  obtain days where d: "snd (getForecast10Days (network_forecast_only ?xs) 0 0 (Some 2))
        = Inr (map Synthesized days)
    \<and> list_all2 (\<lambda>k e. summarizes (bucket k ?xs) e)
         (take (nat (min 10 (max 1 2))) (day_keys ?xs)) days
    \<and> sorted (day_keys ?xs) \<and> distinct (day_keys ?xs) \<and> set (day_keys ?xs) = sample_key ` set ?xs
    \<and> (list_all four_digit_year ?xs \<longrightarrow>
          (\<forall>a\<in>set ?xs. \<forall>b\<in>set ?xs.
             sample_key a = sample_key b \<longleftrightarrow> sample_ts a div 86400000 = sample_ts b div 86400000))
    \<and> (list_all four_digit_year ?xs \<longrightarrow> sorted_wrt (<) (map day_dt days))
    \<and> (2 = (2::int) \<and> length (day_keys ?xs) = 2 \<and> list_all four_digit_year ?xs \<and> list_all has_data ?xs
        \<longrightarrow> (\<exists>e1 e2 i1 d1 i2 d2. days = [e1, e2] \<and> day_dt e1 < day_dt e2
              \<and> js_le (temp_min e1) (temp_max e1) \<and> js_le (temp_min e2) (temp_max e2)
              \<and> day_weather e1 = [\<lparr>icon = Some i1, description = Some d1\<rparr>]
              \<and> is_mode i1 (sample_icons (bucket (day_keys ?xs ! 0) ?xs))
              \<and> is_mode d1 (sample_descriptions (bucket (day_keys ?xs ! 0) ?xs))
              \<and> day_weather e2 = [\<lparr>icon = Some i2, description = Some d2\<rparr>]
              \<and> is_mode i2 (sample_icons (bucket (day_keys ?xs ! 1) ?xs))
              \<and> is_mode d2 (sample_descriptions (bucket (day_keys ?xs ! 1) ?xs))))" ..
  note days = d [THEN conjunct1]
  note scen = d [THEN conjunct2, THEN conjunct2, THEN conjunct2, THEN conjunct2, THEN conjunct2,
      THEN conjunct2, THEN conjunct2, THEN mp, OF s]
  have k0: "day_keys ?xs ! 0 = ''1970-01-01''" and k1: "day_keys ?xs ! 1 = ''1970-01-02''"
    by (simp_all only: ks nth_Cons_0 One_nat_def nth_Cons_Suc)
  from scen obtain e1 e2 i1 d1 i2 d2 where
    e: "days = [e1, e2]"
      "day_weather e1 = [\<lparr>icon = Some i1, description = Some d1\<rparr>]"
      "is_mode i1 (sample_icons (bucket ''1970-01-01'' ?xs))"
      "is_mode d1 (sample_descriptions (bucket ''1970-01-01'' ?xs))"
      "day_weather e2 = [\<lparr>icon = Some i2, description = Some d2\<rparr>]"
      "is_mode i2 (sample_icons (bucket ''1970-01-02'' ?xs))"
      "is_mode d2 (sample_descriptions (bucket ''1970-01-02'' ?xs))"
    unfolding k0 k1 by blast
  from days have "map Synthesized [e1, e2] =
     [Synthesized \<lparr>day_dt = 0, temp_min = Finite 9, temp_max = Finite 16,
            day_weather = [\<lparr>icon = Some ''01n'', description = Some ''clear sky''\<rparr>]\<rparr>,
          Synthesized \<lparr>day_dt = 86400, temp_min = Finite (- 2), temp_max = Finite 2,
            day_weather = [\<lparr>icon = Some ''13n'', description = Some ''overcast clouds''\<rparr>]\<rparr> :: nat forecast_day]"
    unfolding eval e(1) by (simp only: sum.inject)
  then have e12:
    "e1 = \<lparr>day_dt = 0, temp_min = Finite 9, temp_max = Finite 16,
            day_weather = [\<lparr>icon = Some ''01n'', description = Some ''clear sky''\<rparr>]\<rparr>"
    "e2 = \<lparr>day_dt = 86400, temp_min = Finite (- 2), temp_max = Finite 2,
            day_weather = [\<lparr>icon = Some ''13n'', description = Some ''overcast clouds''\<rparr>]\<rparr>"
    by (simp_all only: list.map list.inject forecast_day.inject)
  have w1: "[\<lparr>icon = Some i1, description = Some d1\<rparr>]
      = [\<lparr>icon = Some ''01n'', description = Some ''clear sky''\<rparr>]"
    using e(2) unfolding e12(1) by simp
  have w2: "[\<lparr>icon = Some i2, description = Some d2\<rparr>]
      = [\<lparr>icon = Some ''13n'', description = Some ''overcast clouds''\<rparr>]"
    using e(5) unfolding e12(2) by simp
  from w1 have i1: "i1 = ''01n''" "d1 = ''clear sky''" by simp_all
  from w2 have i2: "i2 = ''13n''" "d2 = ''overcast clouds''" by simp_all
  show ?thesis
    using eval len ks e(3,4,6,7) unfolding i1 i2 by (intro conjI)
qed




section \<open>The clamp of the requested count\<close>

text \<open>
  Claim C8. For every requested \<open>count\<close>, also below 1 or above 10, a daily tier
  with data returns exactly the first \<open>min 10 (max 1 count)\<close> entries of its
  \<open>daily\<close> array, and the third tier exactly the entries of the first
  \<open>min 10 (max 1 count)\<close> day keys; so does \<open>getForecast10Days\<close> when its first
  or second tier has data, and with \<open>count\<close> omitted it returns the first 10.
  Hence each tier, and the call, returns at most \<open>min 10 (max 1 count)\<close> entries:
  a \<open>count\<close> from 1 to 10 is honoured, a smaller one gives one entry and a larger
  one ten.
\<close>

theorem count_clamped:
  "(\<forall>r d ds. outcome = Resolved r \<and> ok r \<and> json r = Inr d \<and> daily d = Some ds \<and> ds \<noteq> []
      \<longrightarrow> daily_tier outcome count = Some (take (nat (min 10 (max 1 count))) ds))
   \<and> (\<forall>r d xs. outcome = Resolved r \<and> ok r \<and> json r = Inr d \<and> list d = Some xs \<and> xs \<noteq> []
          \<and> list_all valid_time xs
      \<longrightarrow> forecast_tier outcome count =
            Inr (map (\<lambda>k. summarize (rec_of (bucket k xs)))
                  (take (nat (min 10 (max 1 count))) (day_keys xs))))
   \<and> (\<forall>r d ds. fetch (url_daily OneCall30 lat lon) = Resolved r \<and> ok r \<and> json r = Inr d
          \<and> daily d = Some ds \<and> ds \<noteq> []
      \<longrightarrow> snd (getForecast10Days fetch lat lon (Some count))
            = Inr (map Daily (take (nat (min 10 (max 1 count))) ds))
        \<and> snd (getForecast10Days fetch lat lon None) = Inr (map Daily (take 10 ds)))
   \<and> (\<forall>r d ds. daily_nothing (fetch (url_daily OneCall30 lat lon))
          \<and> fetch (url_daily OneCall25 lat lon) = Resolved r \<and> ok r \<and> json r = Inr d
          \<and> daily d = Some ds \<and> ds \<noteq> []
      \<longrightarrow> snd (getForecast10Days fetch lat lon (Some count))
            = Inr (map Daily (take (nat (min 10 (max 1 count))) ds)))
   \<and> (\<forall>days. daily_tier outcome count = Some days \<longrightarrow> length days \<le> nat (min 10 (max 1 count)))
   \<and> (\<forall>days. forecast_tier outcome count = Inr days \<longrightarrow> length days \<le> nat (min 10 (max 1 count)))
   \<and> (\<forall>days. snd (getForecast10Days fetch lat lon (Some count)) = Inr days
          \<longrightarrow> length days \<le> nat (min 10 (max 1 count)))
   \<and> (\<forall>days. snd (getForecast10Days fetch lat lon None) = Inr days \<longrightarrow> length days \<le> 10)"
proof (intro conjI allI impI)
  fix r d ds
  assume "outcome = Resolved r \<and> ok r \<and> json r = Inr d \<and> daily d = Some ds \<and> ds \<noteq> []"
  then show "daily_tier outcome count = Some (take (nat (min 10 (max 1 count))) ds)"
    using daily_tier_ok [of outcome r d ds count] by (simp add: slice0_def clamp_count_def)
next
  fix r d xs
  assume a: "outcome = Resolved r \<and> ok r \<and> json r = Inr d \<and> list d = Some xs \<and> xs \<noteq> []
          \<and> list_all valid_time xs"
  then have "array_or_empty (list d) = xs" by (simp add: array_or_empty_def)
  with a show "forecast_tier outcome count =
            Inr (map (\<lambda>k. summarize (rec_of (bucket k xs)))
                  (take (nat (min 10 (max 1 count))) (day_keys xs)))"
    using forecast_tier_samples [of outcome r d xs count] by (simp add: clamp_count_def)
next
  fix r d ds
  assume a: "fetch (url_daily OneCall30 lat lon) = Resolved r \<and> ok r \<and> json r = Inr d
          \<and> daily d = Some ds \<and> ds \<noteq> []"
  then have t: "daily_tier (fetch (url_daily OneCall30 lat lon)) n = Some (slice0 (clamp_count n) ds)" for n
    by (simp add: daily_tier_ok [where r = r and d = d])
  show "snd (getForecast10Days fetch lat lon (Some count))
            = Inr (map Daily (take (nat (min 10 (max 1 count))) ds))"
    by (simp add: getForecast10Days_def t slice0_def clamp_count_def)
  show "snd (getForecast10Days fetch lat lon None) = Inr (map Daily (take 10 ds))"
    by (simp add: getForecast10Days_def t slice0_def clamp_count_def)
next
  fix r d ds
  assume a: "daily_nothing (fetch (url_daily OneCall30 lat lon))
          \<and> fetch (url_daily OneCall25 lat lon) = Resolved r \<and> ok r \<and> json r = Inr d
          \<and> daily d = Some ds \<and> ds \<noteq> []"
  then have n: "daily_tier (fetch (url_daily OneCall30 lat lon)) k = None" for k
    by (simp add: daily_tier_None)
  from a have t: "daily_tier (fetch (url_daily OneCall25 lat lon)) k = Some (slice0 (clamp_count k) ds)" for k
    by (simp add: daily_tier_ok [where r = r and d = d])
  show "snd (getForecast10Days fetch lat lon (Some count))
            = Inr (map Daily (take (nat (min 10 (max 1 count))) ds))"
    by (simp add: getForecast10Days_def n t slice0_def clamp_count_def)
next
  fix days assume "daily_tier outcome count = Some days"
  then show "length days \<le> nat (min 10 (max 1 count))"
    using daily_tier_Some [of outcome count days] by (simp add: clamp_count_def)
next
  fix days assume "forecast_tier outcome count = Inr days"
  then show "length days \<le> nat (min 10 (max 1 count))"
    using forecast_tier_Inr [of outcome count days] by (simp add: clamp_count_def)
next
  fix days assume "snd (getForecast10Days fetch lat lon (Some count)) = Inr days"
  then show "length days \<le> nat (min 10 (max 1 count))"
    by (auto simp: getForecast10Days_def Let_def map_sum_def clamp_count_def
        dest!: daily_tier_Some forecast_tier_Inr split: option.splits sum.splits)
next
  fix days assume "snd (getForecast10Days fetch lat lon None) = Inr days"
  then show "length days \<le> 10"
    by (auto simp: getForecast10Days_def Let_def map_sum_def clamp_count_def
        dest!: daily_tier_Some forecast_tier_Inr split: option.splits sum.splits)
qed

theorem count_clamped_witness:
  "snd (getForecast10Days (network_onecall30 [11, 12, 13, 14, 15, 16, 17, 18, 19, 20, 21, 22] []) 0 0 (Some (- 4)))
     = Inr [Daily 11]
   \<and> snd (getForecast10Days (network_onecall30 [11, 12, 13, 14, 15, 16, 17, 18, 19, 20, 21, 22] []) 0 0 (Some 3))
     = Inr [Daily 11, Daily 12, Daily 13]
   \<and> snd (getForecast10Days (network_onecall30 [11, 12, 13, 14, 15, 16, 17, 18, 19, 20, 21, 22] []) 0 0 (Some 50))
     = Inr [Daily 11, Daily 12, Daily 13, Daily 14, Daily 15, Daily 16, Daily 17, Daily 18, Daily 19, Daily 20]
   \<and> snd (getForecast10Days (network_onecall25 [11, 12, 13]) 0 0 (Some 2)) = Inr [Daily 11, Daily 12]
   \<and> forecast_tier (ok_response (None :: nat list option) None (Some two_day_samples)) 1
     = Inr [\<lparr>day_dt = 0, temp_min = Finite 9, temp_max = Finite 16,
             day_weather = [\<lparr>icon = Some ''01n'', description = Some ''clear sky''\<rparr>]\<rparr>]"
proof -
  let ?ds = "[11, 12, 13, 14, 15, 16, 17, 18, 19, 20, 21, 22] :: nat list"
  let ?d = "\<lparr>daily = Some ?ds, hourly = Some [], list = None\<rparr>"
  let ?r = "\<lparr>ok = True, json = Inr ?d\<rparr>"
  have h: "network_onecall30 ?ds [] (url_daily OneCall30 0 0) = Resolved ?r \<and> ok ?r \<and> json ?r = Inr ?d
      \<and> daily ?d = Some ?ds \<and> ?ds \<noteq> []"
    by (simp add: network_onecall30_def url_daily_def ok_response_def)
  have a: "snd (getForecast10Days (network_onecall30 ?ds []) 0 0 (Some (- 4))) = Inr [Daily 11]"
    using count_clamped [where fetch = "network_onecall30 ?ds []" and lat = 0 and lon = 0 and count = "- 4",
        THEN conjunct2, THEN conjunct2, THEN conjunct1, THEN spec, THEN spec, THEN spec, THEN mp, OF h]
    by simp
  have b: "snd (getForecast10Days (network_onecall30 ?ds []) 0 0 (Some 3)) = Inr [Daily 11, Daily 12, Daily 13]"
    using count_clamped [where fetch = "network_onecall30 ?ds []" and lat = 0 and lon = 0 and count = 3,
        THEN conjunct2, THEN conjunct2, THEN conjunct1, THEN spec, THEN spec, THEN spec, THEN mp, OF h]
    by simp
  have c: "snd (getForecast10Days (network_onecall30 ?ds []) 0 0 (Some 50))
     = Inr [Daily 11, Daily 12, Daily 13, Daily 14, Daily 15, Daily 16, Daily 17, Daily 18, Daily 19, Daily 20]"
    using count_clamped [where fetch = "network_onecall30 ?ds []" and lat = 0 and lon = 0 and count = 50,
        THEN conjunct2, THEN conjunct2, THEN conjunct1, THEN spec, THEN spec, THEN spec, THEN mp, OF h]
    by simp
  let ?d2 = "\<lparr>daily = Some [11, 12, 13 :: nat], hourly = None, list = None\<rparr>"
  let ?r2 = "\<lparr>ok = True, json = Inr ?d2\<rparr>"
  have h2: "daily_nothing (network_onecall25 [11, 12, 13] (url_daily OneCall30 0 0))
      \<and> network_onecall25 [11, 12, 13] (url_daily OneCall25 0 0) = Resolved ?r2 \<and> ok ?r2
      \<and> json ?r2 = Inr ?d2 \<and> daily ?d2 = Some [11, 12, 13] \<and> [11, 12, 13 :: nat] \<noteq> []"
    by (simp add: network_onecall25_def url_daily_def ok_response_def daily_nothing_def)
  have e: "snd (getForecast10Days (network_onecall25 [11, 12, 13]) 0 0 (Some 2)) = Inr [Daily 11, Daily 12]"
    using count_clamped [where fetch = "network_onecall25 [11, 12, 13]" and lat = 0 and lon = 0
        and count = 2, THEN conjunct2, THEN conjunct2, THEN conjunct2, THEN conjunct1,
        THEN spec, THEN spec, THEN spec, THEN mp, OF h2]
    by simp
  let ?d3 = "\<lparr>daily = None :: nat list option, hourly = None, list = Some two_day_samples\<rparr>"
  let ?r3 = "\<lparr>ok = True, json = Inr ?d3\<rparr>"
  have v: "list_all valid_time two_day_samples" by code_simp
  have ne: "two_day_samples \<noteq> []" by (simp add: two_day_samples_def)
  have h3: "ok_response (None :: nat list option) None (Some two_day_samples) = Resolved ?r3 \<and> ok ?r3
      \<and> json ?r3 = Inr ?d3 \<and> list ?d3 = Some two_day_samples \<and> two_day_samples \<noteq> []
      \<and> list_all valid_time two_day_samples"
    using v ne by (simp add: ok_response_def)
  have ev: "forecast_tier (ok_response (None :: nat list option) None (Some two_day_samples)) 1
     = Inr [\<lparr>day_dt = 0, temp_min = Finite 9, temp_max = Finite 16,
             day_weather = [\<lparr>icon = Some ''01n'', description = Some ''clear sky''\<rparr>]\<rparr>]"
    by code_simp
  note f = count_clamped [where outcome = "ok_response (None :: nat list option) None (Some two_day_samples)"
      and count = 1, THEN conjunct2, THEN conjunct1, THEN spec, THEN spec, THEN spec, THEN mp, OF h3]
  from a b c e ev f show ?thesis by (intro conjI)
qed

end
